theory Spec2Isabelle
  imports Main "HOL-Library.Char_ord" "HOL-Library.List_Lexorder"
begin

section \<open>Python values shared by the engine and the menu generator\<close>

text \<open>
  Exceptions are values. \<^verbatim>\<open>KeyboardInterrupt\<close> and \<^verbatim>\<open>SystemExit\<close> derive from
  \<^verbatim>\<open>BaseException\<close> only; the other constructors stand for subclasses of
  \<^verbatim>\<open>Exception\<close>, \<open>PyException\<close> for any of them that the code does not name.
  \<^verbatim>\<open>TankError\<close> is the Toolkit's own error class, the only one that
  \<^verbatim>\<open>refresh_engine\<close> catches.
\<close>

datatype exn =
    TankError string
  | AttributeError string
  | KeyError string
  | IndexError
  | PyException string
  | KeyboardInterrupt
  | SystemExit

text \<open>What \<^verbatim>\<open>except Exception\<close> and \<^verbatim>\<open>except tank.TankError\<close> catch.\<close>

fun is_Exception :: "exn \<Rightarrow> bool" where
  "is_Exception KeyboardInterrupt = False"
| "is_Exception SystemExit = False"
| "is_Exception e = True"

fun is_TankError :: "exn \<Rightarrow> bool" where
  "is_TankError (TankError m) = True"
| "is_TankError e = False"

text \<open>Decimal rendering of a counter, as \<^verbatim>\<open>"%s" % n\<close> and \<^verbatim>\<open>"%d" % n\<close> give it.\<close>

fun str_nat :: "nat \<Rightarrow> string" where
  "str_nat n = (if n < 10 then [''0123456789'' ! n]
                else str_nat (n div 10) @ [''0123456789'' ! (n mod 10)])"

declare str_nat.simps [simp del]

section \<open>Data model of \<^verbatim>\<open>python/tk_gaffer/menu_generation.py\<close>\<close>

text \<open>
  An app instance object. Python compares two of them by identity, which
  \<open>app_ident\<close> stands for; \<open>display_name\<close> is the attribute the menu reads.
\<close>

record app =
  app_ident :: nat
  display_name :: string

text \<open>
  The callables that end up behind a menu item: the generator's two bound methods
  and the callbacks registered by the apps.
\<close>

datatype callable = Jump_to_sg | Jump_to_fs | App_callback nat

text \<open>The class \<^verbatim>\<open>Callback\<close>: an object holding the wrapped callable.\<close>

datatype Callback = Callback callable

text \<open>
  What the callbacks registered by the apps read when they are called: the state of
  the host application and of the pipeline at that moment, of which the model keeps a
  number.
\<close>

type_synonym app_state = nat

text \<open>
  The \<^verbatim>\<open>properties\<close> dictionary of a command, one optional field per key that
  the generator reads (\<open>None\<close>: the key is absent). The two callback keys hold
  callables without arguments. They are queries: called in a state, they give a
  value or raise, and what they give may differ from one call to the next as the
  state does.
\<close>

record properties =
  app :: "app option"
  cmd_type :: "string option"
  tooltip :: "string option"
  short_cut :: "string option"
  enable_callback :: "(app_state \<Rightarrow> exn + bool) option"
  checkable :: "bool option"
  checkable_callback :: "(app_state \<Rightarrow> exn + bool) option"

definition no_properties :: properties where
  "no_properties = \<lparr>app = None, cmd_type = None, tooltip = None, short_cut = None,
     enable_callback = None, checkable = None, checkable_callback = None\<rparr>"

text \<open>A value of \<^verbatim>\<open>engine.commands\<close>: the keys \<^verbatim>\<open>"properties"\<close> and \<^verbatim>\<open>"callback"\<close>.\<close>

record command_dict =
  dict_properties :: "properties option"
  dict_callback :: "callable option"

record AppCommand =
  name :: string
  properties :: properties
  callback :: "callable option"
  favourite :: bool

text \<open>An entry of \<^verbatim>\<open>menu_favourites\<close>: the keys \<^verbatim>\<open>"app_instance"\<close> and \<^verbatim>\<open>"name"\<close>.\<close>

record favourite_setting =
  app_instance :: string
  fav_name :: string

record Context =
  ctx_str :: string
  filesystem_locations :: "string list"
  shotgun_url :: string
  project :: "string option"

text \<open>
  What the generator reads from the Toolkit base class \<^verbatim>\<open>Engine\<close>: the command
  registry and the apps (dictionaries, kept as their item lists), the context and
  the \<^verbatim>\<open>menu_favourites\<close> setting.
\<close>

record Engine =
  commands :: "(string \<times> command_dict) list"
  apps :: "(string \<times> app) list"
  engine_context :: Context
  menu_favourites :: "favourite_setting list"

text \<open>
  The dictionaries handed to \<^verbatim>\<open>IECore.MenuDefinition.append\<close>: a divider, or an
  item description with its optional keys.
\<close>

record menu_description =
  command :: "Callback option"
  label :: string
  searchText :: "string option"
  description :: "string option"
  shortCut :: "string option"
  active :: "bool option"
  checkBox :: "bool option"

datatype menu_item = Divider | Item menu_description

text \<open>
  The generator object. \<open>menu_def\<close> is \<open>None\<close> until the first build, and then
  holds the (path, item) pairs in the order in which the generator appended them.
\<close>

record MenuGenerator =
  menu_name :: string
  menu_def :: "(string \<times> menu_item) list option"
  divider_id :: nat
  menu_item_id :: nat

text \<open>
  A method of the generator either returns, or raises with the generator left as it
  was at that point: \<open>Inl (e, g)\<close>.
\<close>

type_synonym 'a raising = "(exn \<times> MenuGenerator) + 'a"

section \<open>The class \<^verbatim>\<open>AppCommand\<close>\<close>

definition AppCommand_init :: "string \<Rightarrow> command_dict \<Rightarrow> AppCommand" where
  "AppCommand_init cmd_name cmd_details =
     \<lparr>name = cmd_name,
      properties = (case dict_properties cmd_details of None \<Rightarrow> no_properties | Some p \<Rightarrow> p),
      callback = dict_callback cmd_details,
      favourite = False\<rparr>"

definition get_app_name :: "AppCommand \<Rightarrow> string option" where
  "get_app_name cmd = map_option display_name (app (properties cmd))"

definition get_app_instance_name :: "'e Engine_scheme \<Rightarrow> AppCommand \<Rightarrow> string option" where
  "get_app_instance_name eng cmd =
     (case app (properties cmd) of
        None \<Rightarrow> None
      | Some a \<Rightarrow> map_option fst (find (\<lambda>(app_instance_name, app_instance_obj). app_instance_obj = a) (apps eng)))"

definition get_type :: "AppCommand \<Rightarrow> string" where
  "get_type cmd = (case cmd_type (properties cmd) of None \<Rightarrow> ''default'' | Some t \<Rightarrow> t)"

section \<open>The class \<^verbatim>\<open>MenuGenerator\<close>\<close>

definition MenuGenerator_init :: "string \<Rightarrow> MenuGenerator" where
  "MenuGenerator_init nm = \<lparr>menu_name = nm, menu_def = None, divider_id = 1, menu_item_id = 1\<rparr>"

definition get_menu_definition :: "MenuGenerator \<Rightarrow> (string \<times> menu_item) list option" where
  "get_menu_definition g = menu_def g"

text \<open>\<^verbatim>\<open>self._menu_def.append(path, item)\<close>; on \<^verbatim>\<open>None\<close> the attribute lookup fails.\<close>

definition md_append :: "string \<Rightarrow> menu_item \<Rightarrow> MenuGenerator \<Rightarrow> MenuGenerator raising" where
  "md_append path item g =
     (case menu_def g of
        None \<Rightarrow> Inl (AttributeError ''append'', g)
      | Some md \<Rightarrow> Inr (g\<lparr>menu_def := Some (md @ [(path, item)])\<rparr>))"

definition add_divider :: "string \<Rightarrow> MenuGenerator \<Rightarrow> MenuGenerator raising" where
  "add_divider parent_menu g0 =
     (let g = g0\<lparr>divider_id := divider_id g0 + 1\<rparr>
      in md_append (parent_menu @ ''/divider'' @ str_nat (divider_id g)) Divider g)"

definition add_sub_menu :: "string \<Rightarrow> string \<Rightarrow> string" where
  "add_sub_menu nm parent_menu = parent_menu @ ''/'' @ nm"

text \<open>
  The dictionary \<^verbatim>\<open>menu_description\<close> that \<^verbatim>\<open>_add_menu_item\<close> fills in, or the
  exception of the first callback that raises while it does. The callbacks are
  called here, at every build, in the state \<open>st\<close> of that moment; this state is
  handed down from \<^verbatim>\<open>create_menu\<close> through every method that adds an item.
\<close>

definition describe_item :: "app_state \<Rightarrow> string \<Rightarrow> callable option \<Rightarrow> properties option \<Rightarrow> exn + menu_description" where
  "describe_item st nm cb props =
     (let d0 = \<lparr>command = map_option Callback cb, label = nm, searchText = Some nm,
                description = None, shortCut = None, active = None, checkBox = None\<rparr>
      in case props of
           None \<Rightarrow> Inr d0
         | Some p \<Rightarrow>
             (let d1 = d0\<lparr>description := tooltip p, shortCut := short_cut p\<rparr>
              in case map_option (\<lambda>enable_callback. enable_callback st) (enable_callback p) of
                   Some (Inl e) \<Rightarrow> Inl e
                 | en \<Rightarrow>
                     (let d2 = d1\<lparr>active := (case en of Some (Inr b) \<Rightarrow> Some b | _ \<Rightarrow> None)\<rparr>
                      in case checkable p of
                           Some c \<Rightarrow> Inr (d2\<lparr>checkBox := Some c\<rparr>)
                         | None \<Rightarrow>
                             (case map_option (\<lambda>checkable_callback. checkable_callback st) (checkable_callback p) of
                                None \<Rightarrow> Inr d2
                              | Some (Inl e) \<Rightarrow> Inl e
                              | Some (Inr b) \<Rightarrow> Inr (d2\<lparr>checkBox := Some b\<rparr>)))))"

definition add_menu_item ::
  "app_state \<Rightarrow> string \<Rightarrow> string \<Rightarrow> callable option \<Rightarrow> properties option \<Rightarrow> MenuGenerator \<Rightarrow> MenuGenerator raising" where
  "add_menu_item st nm parent_menu cb props g0 =
     (let g = g0\<lparr>menu_item_id := menu_item_id g0 + 1\<rparr>
      in case describe_item st nm cb props of
           Inl e \<Rightarrow> Inl (e, g)
         | Inr d \<Rightarrow> md_append (parent_menu @ ''/'' @ nm @ str_nat (menu_item_id g)) (Item d) g)"

definition add_command_to_menu :: "app_state \<Rightarrow> AppCommand \<Rightarrow> string \<Rightarrow> MenuGenerator \<Rightarrow> MenuGenerator raising" where
  "add_command_to_menu st cmd menu g = add_menu_item st (name cmd) menu (callback cmd) (Some (properties cmd)) g"

definition add_context_menu :: "app_state \<Rightarrow> 'e Engine_scheme \<Rightarrow> string \<Rightarrow> MenuGenerator \<Rightarrow> (string \<times> MenuGenerator) raising" where
  "add_context_menu st eng parent_menu g =
     (let ctx = engine_context eng;
          ctx_menu = add_sub_menu (ctx_str ctx) parent_menu
      in case add_menu_item st ''Jump to Shotgun'' ctx_menu (Some Jump_to_sg) None g of
           Inl x \<Rightarrow> Inl x
         | Inr g1 \<Rightarrow>
             (case (if filesystem_locations ctx \<noteq> []
                    then add_menu_item st ''Jump to File System'' ctx_menu (Some Jump_to_fs)
                           (Some (no_properties\<lparr>tooltip := Some ''my tooliotoop''\<rparr>)) g1
                    else Inr g1) of
                Inl x \<Rightarrow> Inl x
              | Inr g2 \<Rightarrow>
                  (case add_divider ctx_menu g2 of
                     Inl x \<Rightarrow> Inl x
                   | Inr g3 \<Rightarrow> Inr (ctx_menu, g3))))"

text \<open>
  The inner loop over \<^verbatim>\<open>menu_items\<close> for one favourite: every command that matches
  both fields is added to the top level and marked; the loop has no \<^verbatim>\<open>break\<close>.
\<close>

fun scan_menu_items ::
  "app_state \<Rightarrow> 'e Engine_scheme \<Rightarrow> favourite_setting \<Rightarrow> AppCommand list \<Rightarrow> MenuGenerator
     \<Rightarrow> (AppCommand list \<times> MenuGenerator) raising" where
  "scan_menu_items st eng fav [] g = Inr ([], g)"
| "scan_menu_items st eng fav (cmd # rest) g =
     (if get_app_instance_name eng cmd = Some (app_instance fav) \<and> name cmd = fav_name fav
      then (case add_command_to_menu st cmd [] g of
              Inl x \<Rightarrow> Inl x
            | Inr g1 \<Rightarrow>
                (case scan_menu_items st eng fav rest g1 of
                   Inl x \<Rightarrow> Inl x
                 | Inr (rest', g2) \<Rightarrow> Inr (cmd\<lparr>favourite := True\<rparr> # rest', g2)))
      else (case scan_menu_items st eng fav rest g of
              Inl x \<Rightarrow> Inl x
            | Inr (rest', g1) \<Rightarrow> Inr (cmd # rest', g1)))"

fun add_favourites ::
  "app_state \<Rightarrow> 'e Engine_scheme \<Rightarrow> favourite_setting list \<Rightarrow> AppCommand list \<Rightarrow> MenuGenerator
     \<Rightarrow> (AppCommand list \<times> MenuGenerator) raising" where
  "add_favourites st eng [] menu_items g = Inr (menu_items, g)"
| "add_favourites st eng (fav # favs) menu_items g =
     (case scan_menu_items st eng fav menu_items g of
        Inl x \<Rightarrow> Inl x
      | Inr (menu_items', g1) \<Rightarrow> add_favourites st eng favs menu_items' g1)"

text \<open>
  \<^verbatim>\<open>commands_by_app\<close> is a dictionary of lists, kept in insertion order:
  \<^verbatim>\<open>if app_name not in d: d[app_name] = []\<close> and then \<^verbatim>\<open>d[app_name].append(cmd)\<close>.
\<close>

fun append_to_app :: "string \<Rightarrow> AppCommand \<Rightarrow> (string \<times> AppCommand list) list \<Rightarrow> (string \<times> AppCommand list) list" where
  "append_to_app app_name cmd [] = [(app_name, [cmd])]"
| "append_to_app app_name cmd ((k, cmds) # d) =
     (if k = app_name then (k, cmds @ [cmd]) # d else (k, cmds) # append_to_app app_name cmd d)"

fun separate_commands ::
  "app_state \<Rightarrow> AppCommand list \<Rightarrow> string \<Rightarrow> (string \<times> AppCommand list) list \<Rightarrow> MenuGenerator
     \<Rightarrow> ((string \<times> AppCommand list) list \<times> MenuGenerator) raising" where
  "separate_commands st [] context_menu commands_by_app g = Inr (commands_by_app, g)"
| "separate_commands st (cmd # rest) context_menu commands_by_app g =
     (if get_type cmd = ''context_menu''
      then (case add_command_to_menu st cmd context_menu g of
              Inl x \<Rightarrow> Inl x
            | Inr g1 \<Rightarrow> separate_commands st rest context_menu commands_by_app g1)
      else separate_commands st rest context_menu
             (append_to_app (case get_app_name cmd of None \<Rightarrow> ''Other Items'' | Some n \<Rightarrow> n) cmd commands_by_app) g)"

fun add_commands :: "app_state \<Rightarrow> AppCommand list \<Rightarrow> string \<Rightarrow> MenuGenerator \<Rightarrow> MenuGenerator raising" where
  "add_commands st [] app_menu g = Inr g"
| "add_commands st (cmd # cmds) app_menu g =
     (case add_command_to_menu st cmd app_menu g of
        Inl x \<Rightarrow> Inl x
      | Inr g1 \<Rightarrow> add_commands st cmds app_menu g1)"

text \<open>The loop of \<^verbatim>\<open>_add_app_menu\<close> over the sorted keys of \<^verbatim>\<open>commands_by_app\<close>.\<close>

fun add_apps :: "app_state \<Rightarrow> (string \<times> AppCommand list) list \<Rightarrow> string list \<Rightarrow> MenuGenerator \<Rightarrow> MenuGenerator raising" where
  "add_apps st commands_by_app [] g = Inr g"
| "add_apps st commands_by_app (app_name # app_names) g =
     (case map_of commands_by_app app_name of
        None \<Rightarrow> Inl (KeyError app_name, g)
      | Some cmds \<Rightarrow>
          if length cmds > 1
          then (case add_commands st (sort_key name cmds) (add_sub_menu app_name []) g of
                  Inl x \<Rightarrow> Inl x
                | Inr g1 \<Rightarrow> add_apps st commands_by_app app_names g1)
          else (case cmds of
                  [] \<Rightarrow> Inl (IndexError, g)
                | cmd_obj # _ \<Rightarrow>
                    if \<not> favourite cmd_obj
                    then (case add_command_to_menu st cmd_obj [] g of
                            Inl x \<Rightarrow> Inl x
                          | Inr g1 \<Rightarrow> add_apps st commands_by_app app_names g1)
                    else add_apps st commands_by_app app_names g))"

definition add_app_menu :: "app_state \<Rightarrow> (string \<times> AppCommand list) list \<Rightarrow> MenuGenerator \<Rightarrow> MenuGenerator raising" where
  "add_app_menu st commands_by_app g =
     (case add_apps st commands_by_app (sort (map fst commands_by_app)) g of
        Inl x \<Rightarrow> Inl x
      | Inr g1 \<Rightarrow> add_divider [] g1)"

definition menu_disabled :: menu_description where
  "menu_disabled = \<lparr>command = None, label = ''Sgtk is disabled.'', searchText = None,
     description = None, shortCut = None, active = None, checkBox = None\<rparr>"

text \<open>
  \<^verbatim>\<open>create_menu\<close>. The calls to the host's user interface
  (\<^verbatim>\<open>application_menu.setEnabled\<close>, \<^verbatim>\<open>processEvents\<close>) and the debug log lines
  leave the generator untouched and are not part of its state.
\<close>

definition create_menu :: "app_state \<Rightarrow> 'e Engine_scheme \<Rightarrow> bool \<Rightarrow> MenuGenerator \<Rightarrow> MenuGenerator raising" where
  "create_menu st eng disabled g0 =
     (let g = g0\<lparr>menu_def := Some []\<rparr>
      in if \<not> disabled
         then (case add_context_menu st eng [] g of
                 Inl x \<Rightarrow> Inl x
               | Inr (context_menu, g1) \<Rightarrow>
             (case add_divider [] g1 of
                 Inl x \<Rightarrow> Inl x
               | Inr g2 \<Rightarrow>
             (let menu_items = sort_key name
                    (map (\<lambda>(cmd_name, cmd_details). AppCommand_init cmd_name cmd_details) (commands eng))
              in case add_favourites st eng (menu_favourites eng) menu_items g2 of
                 Inl x \<Rightarrow> Inl x
               | Inr (menu_items', g3) \<Rightarrow>
             (case (if length (menu_favourites eng) > 0 then add_divider [] g3 else Inr g3) of
                 Inl x \<Rightarrow> Inl x
               | Inr g4 \<Rightarrow>
             (case separate_commands st menu_items' context_menu [] g4 of
                 Inl x \<Rightarrow> Inl x
               | Inr (commands_by_app, g5) \<Rightarrow> add_app_menu st commands_by_app g5)))))
         else md_append ''/menu_disabled'' (Item menu_disabled) g)"

section \<open>Data model of \<^verbatim>\<open>engine.py\<close>\<close>

text \<open>
  The Gaffer script node as far as the engine reads it: the value of its
  \<^verbatim>\<open>fileName\<close> plug, and whether its script window has a menu bar
  (\<^verbatim>\<open>get_menubar(script) is not None\<close>).
\<close>

record script_node =
  fileName :: string
  has_menubar :: bool

text \<open>
  \<^verbatim>\<open>class GafferEngine(Engine)\<close>. The attributes keep their names without the
  leading underscore; \<open>application\<close> tells whether \<^verbatim>\<open>_application\<close> is set, and
  \<open>active_doc_timer\<close> holds the interval once the timer has been started.
\<close>

record GafferEngine = Engine +
  application :: bool
  script :: "script_node option"
  active_document_filename :: string
  creating_menu :: bool
  menu_generator :: "MenuGenerator option"
  engine_menu_name :: string
  active_doc_timer :: "nat option"

datatype log_entry = Debug string | Warning string | Logged_exception string

text \<open>What \<^verbatim>\<open>QTimer.singleShot\<close> has been asked to run on a later turn of the event loop.\<close>

datatype deferred = Retry_create_shotgun_menu | Execute_within_exception_trap Callback

text \<open>
  The process: the engine object, whether \<^verbatim>\<open>tank.platform.current_engine()\<close>
  returns it (otherwise it returns \<^verbatim>\<open>None\<close>), the log lines written so far (the
  fixed text of each message, without its formatted arguments and time stamp), the
  single-shot timers of the event loop with their delays, and the state that the
  callbacks of the apps read.
\<close>

record world =
  engine :: GafferEngine
  current_engine_set :: bool
  log :: "log_entry list"
  pending :: "(nat \<times> deferred) list"
  app_state :: app_state

type_synonym 'a raises = "(exn \<times> world) + 'a"

text \<open>
  What the engine calls outside this repository, taken as parameters: the file
  system (\<^verbatim>\<open>os.path\<close>), the Toolkit API (\<^verbatim>\<open>sgtk_from_path\<close>, the two context
  factories of the instance it returns, the comparison \<^verbatim>\<open>Context.__ne__\<close> of two
  contexts, \<^verbatim>\<open>Engine.change_context\<close>) and the behaviour of a callable when it is
  run.
\<close>

record host =
  path_exists :: "string \<Rightarrow> bool"
  abspath :: "string \<Rightarrow> string"
  sgtk_from_path :: "string \<Rightarrow> exn + nat"
  context_from_path :: "nat \<Rightarrow> string \<Rightarrow> Context \<Rightarrow> exn + Context option"
  context_from_entity_dictionary :: "nat \<Rightarrow> string \<Rightarrow> exn + Context"
  context_ne :: "Context \<Rightarrow> Context \<Rightarrow> bool"
  change_context :: "Context \<Rightarrow> GafferEngine \<Rightarrow> (exn \<times> GafferEngine) + GafferEngine"
  call :: "callable \<Rightarrow> world \<Rightarrow> world raises"

definition write_log :: "log_entry \<Rightarrow> world \<Rightarrow> world" where
  "write_log entry w = w\<lparr>log := log w @ [entry]\<rparr>"

definition is_batch_mode :: bool where
  "is_batch_mode = False"

definition has_ui :: bool where
  "has_ui = (\<not> is_batch_mode)"

definition can_create_menu :: "script_node option \<Rightarrow> bool" where
  "can_create_menu scr = (case scr of None \<Rightarrow> False | Some s \<Rightarrow> has_menubar s)"

section \<open>\<^verbatim>\<open>GafferEngine.create_shotgun_menu\<close>\<close>

text \<open>
  The generator is constructed anew for every build and stored in the engine before
  \<^verbatim>\<open>create_menu\<close> runs on it, so the engine sees whatever the build did to it even
  when the build raises. There is no handler around the build.
\<close>

definition create_shotgun_menu :: "bool \<Rightarrow> world \<Rightarrow> (bool \<times> world) raises" where
  "create_shotgun_menu disabled w =
     (if has_ui
      then (if can_create_menu (script (engine w))
            then (let w1 = write_log (Debug ''Creating shotgun menu...'') w;
                      e1 = (engine w1)\<lparr>creating_menu := True\<rparr>;
                      g = MenuGenerator_init (engine_menu_name e1);
                      e2 = e1\<lparr>menu_generator := Some g\<rparr>
                  in case create_menu (app_state w1) e2 disabled g of
                       Inl (ex, g') \<Rightarrow> Inl (ex, w1\<lparr>engine := e2\<lparr>menu_generator := Some g'\<rparr>\<rparr>)
                     | Inr g' \<Rightarrow>
                         (let e3 = e2\<lparr>menu_generator := Some g', creating_menu := False\<rparr>;
                              w2 = write_log (Debug ''Starting active doc timer...'') (w1\<lparr>engine := e3\<rparr>)
                          in Inr (True, w2\<lparr>engine := (engine w2)\<lparr>active_doc_timer := Some 1000\<rparr>\<rparr>)))
            else (let w1 = write_log (Debug ''Waiting for menu to be created...'') w
                  in Inr (True, w1\<lparr>pending := pending w1 @ [(200, Retry_create_shotgun_menu)]\<rparr>)))
      else Inr (False, w))"

section \<open>\<^verbatim>\<open>refresh_engine\<close>\<close>

definition display_warning :: "string \<Rightarrow> world \<Rightarrow> world" where
  "display_warning msg w = write_log (Warning msg) w"

text \<open>
  The fallback to the project context: \<^verbatim>\<open>engine.context.project.get("name")\<close> fails
  on a context without project, before the factory is called.
\<close>

definition project_context :: "host \<Rightarrow> nat \<Rightarrow> world \<Rightarrow> (Context \<times> world) raises" where
  "project_context h tk w =
     (case project (engine_context (engine w)) of
        None \<Rightarrow> Inl (AttributeError ''get'', w)
      | Some project_name \<Rightarrow>
          (case context_from_entity_dictionary h tk project_name of
             Inl e \<Rightarrow> Inl (e, w)
           | Inr ctx \<Rightarrow> Inr (ctx, write_log (Debug ''Could not extract a context from the current active project path'') w)))"

definition refresh_engine :: "host \<Rightarrow> world \<Rightarrow> world raises" where
  "refresh_engine h w0 =
     (let w = write_log (Debug ''Refreshing the engine'') w0
      in if \<not> current_engine_set w
         then Inr (write_log (Debug ''No currently initialized engine found; aborting the refresh of the engine'') w)
         else (case script (engine w) of
                 None \<Rightarrow> Inr (write_log (Debug ''File has not been saved yet, aborting the refresh of the engine.'') w)
               | Some scr \<Rightarrow>
           if fileName scr = []
           then Inr (write_log (Debug ''File has not been saved yet, aborting the refresh of the engine.'') w)
           else (let active_doc_path = abspath h (fileName scr);
                     current_context = engine_context (engine w)
                 in case sgtk_from_path h active_doc_path of
                      Inl e \<Rightarrow>
                        if is_TankError e
                        then Inr (display_warning ''Shotgun Gaffer Engine could not detect the context from the active document.'' w)
                        else Inl (e, w)
                    | Inr tk \<Rightarrow>
                (let w1 = write_log (Debug ''Extracted sgtk instance'') w
                 in case context_from_path h tk active_doc_path current_context of
                      Inl e \<Rightarrow> Inl (e, w1)
                    | Inr found \<Rightarrow>
                (let w2 = write_log (Debug ''Given the path the following context was extracted'') w1
                 in case (case found of Some ctx \<Rightarrow> Inr (ctx, w2) | None \<Rightarrow> project_context h tk w2) of
                      Inl x \<Rightarrow> Inl x
                    | Inr (ctx, w3) \<Rightarrow>
                        if context_ne h ctx current_context
                        then (case change_context h ctx (engine w3) of
                                Inr e' \<Rightarrow> Inr (w3\<lparr>engine := e'\<rparr>)
                              | Inl (e, e') \<Rightarrow>
                                  if is_TankError e
                                  then (case create_shotgun_menu True
                                               (display_warning ''Shotgun Gaffer Engine could not change context. Shotgun menu will be disabled!.''
                                                  (w3\<lparr>engine := e'\<rparr>)) of
                                          Inl x \<Rightarrow> Inl x
                                        | Inr (_, w4) \<Rightarrow> Inr w4)
                                  else Inl (e, w3\<lparr>engine := e'\<rparr>))
                        else Inr w3)))))"

section \<open>\<^verbatim>\<open>GafferEngine.check_if_document_changed\<close>\<close>

definition check_if_document_changed :: "host \<Rightarrow> world \<Rightarrow> world raises" where
  "check_if_document_changed h w =
     (if \<not> application (engine w)
      then Inr (write_log (Debug ''No Application loaded'') w)
      else (case script (engine w) of
              None \<Rightarrow> Inr (write_log (Debug ''No Script loaded'') w)
            | Some scr \<Rightarrow>
                (let document_filename = fileName scr
                 in if \<not> path_exists h document_filename
                    then Inr w
                    else if abspath h (active_document_filename (engine w)) \<noteq> document_filename
                    then (let w1 = write_log
                                (Debug (''Active document changed from: '' @ active_document_filename (engine w)
                                        @ '' to: '' @ document_filename)) w
                          in refresh_engine h
                               (w1\<lparr>engine := (engine w1)\<lparr>active_document_filename := abspath h document_filename\<rparr>\<rparr>))
                    else Inr w)))"

text \<open>How often \<^verbatim>\<open>refresh_engine\<close> has run: it writes this line first, every time.\<close>

definition refresh_count :: "world \<Rightarrow> nat" where
  "refresh_count w = length (filter (\<lambda>entry. entry = Debug ''Refreshing the engine'') (log w))"

section \<open>The class \<^verbatim>\<open>Callback\<close>\<close>

text \<open>
  \<^verbatim>\<open>__call__(self, *_)\<close>: whatever the arguments, a single-shot timer of delay 0 is
  registered for \<^verbatim>\<open>_execute_within_exception_trap\<close>; nothing else happens.
\<close>

definition Callback_call :: "Callback \<Rightarrow> 'a list \<Rightarrow> world \<Rightarrow> world" where
  "Callback_call self args w = w\<lparr>pending := pending w @ [(0, Execute_within_exception_trap self)]\<rparr>"

text \<open>
  The guard is \<^verbatim>\<open>except Exception\<close>: an exception outside that class leaves
  the trap as it is. The handler logs through the logger of
  \<^verbatim>\<open>tank.platform.current_engine()\<close>; on \<^verbatim>\<open>None\<close> the attribute lookup fails
  inside the handler.
\<close>

definition execute_within_exception_trap :: "host \<Rightarrow> Callback \<Rightarrow> world \<Rightarrow> world raises" where
  "execute_within_exception_trap h self w =
     (case self of Callback cb \<Rightarrow>
        (case call h cb w of
           Inr w1 \<Rightarrow> Inr w1
         | Inl (e, w1) \<Rightarrow>
             if is_Exception e
             then (if current_engine_set w1
                   then Inr (write_log (Logged_exception ''An exception was raised from Toolkit'') w1)
                   else Inl (AttributeError ''logger'', w1))
             else Inl (e, w1)))"

text \<open>One turn of the event loop runs the single-shot timers that are due.\<close>

definition run_deferred :: "host \<Rightarrow> deferred \<Rightarrow> world \<Rightarrow> world raises" where
  "run_deferred h d w =
     (case d of
        Retry_create_shotgun_menu \<Rightarrow>
          (case create_shotgun_menu False w of Inl x \<Rightarrow> Inl x | Inr (_, w1) \<Rightarrow> Inr w1)
      | Execute_within_exception_trap cbk \<Rightarrow> execute_within_exception_trap h cbk w)"

section \<open>Timer ticks and repeated builds\<close>

text \<open>\<^verbatim>\<open>_on_active_doc_timer\<close> firing \<open>n\<close> times in a row.\<close>

fun on_active_doc_timer :: "host \<Rightarrow> nat \<Rightarrow> world \<Rightarrow> world raises" where
  "on_active_doc_timer h 0 w = Inr w"
| "on_active_doc_timer h (Suc n) w =
     (case check_if_document_changed h w of
        Inl x \<Rightarrow> Inl x
      | Inr w1 \<Rightarrow> on_active_doc_timer h n w1)"

text \<open>\<^verbatim>\<open>create_menu\<close> called a second time on the generator that the first call left.\<close>

definition create_menu_again :: "app_state \<Rightarrow> 'e Engine_scheme \<Rightarrow> bool \<Rightarrow> MenuGenerator \<Rightarrow> MenuGenerator raising" where
  "create_menu_again st eng disabled g =
     (case create_menu st eng disabled g of
        Inl x \<Rightarrow> Inl x
      | Inr g1 \<Rightarrow> create_menu st eng disabled g1)"

section \<open>\<^verbatim>\<open>os.path.abspath\<close> on a POSIX host\<close>

text \<open>
  The standard library's \<^verbatim>\<open>posixpath\<close> functions, used to run the engine on
  concrete paths: \<^verbatim>\<open>str.split\<close> and \<^verbatim>\<open>str.join\<close> on the separator, the loop of
  \<^verbatim>\<open>normpath\<close> over the components, \<^verbatim>\<open>join\<close> of two paths, and \<^verbatim>\<open>abspath\<close> for
  a given working directory.
\<close>

fun split_sep :: "string \<Rightarrow> string list" where
  "split_sep [] = [[]]"
| "split_sep (c # cs) =
     (if c = CHR ''/'' then [] # split_sep cs
      else (case split_sep cs of [] \<Rightarrow> [[c]] | part # parts \<Rightarrow> (c # part) # parts))"

fun join_sep :: "string list \<Rightarrow> string" where
  "join_sep [] = []"
| "join_sep [part] = part"
| "join_sep (part # parts) = part @ ''/'' @ join_sep parts"

fun normpath_comps :: "nat \<Rightarrow> string list \<Rightarrow> string list \<Rightarrow> string list" where
  "normpath_comps initial_slashes [] new_comps = new_comps"
| "normpath_comps initial_slashes (part # parts) new_comps =
     (if part = [] \<or> part = ''.'' then normpath_comps initial_slashes parts new_comps
      else if part \<noteq> ''..'' \<or> (initial_slashes = 0 \<and> new_comps = [])
                \<or> (new_comps \<noteq> [] \<and> last new_comps = ''..'')
      then normpath_comps initial_slashes parts (new_comps @ [part])
      else if new_comps \<noteq> [] then normpath_comps initial_slashes parts (butlast new_comps)
      else normpath_comps initial_slashes parts new_comps)"

definition posix_normpath :: "string \<Rightarrow> string" where
  "posix_normpath path =
     (if path = [] then ''.''
      else (let initial_slashes =
                  (if take 1 path = ''/''
                   then (if take 2 path = ''//'' \<and> take 3 path \<noteq> ''///'' then 2 else 1)
                   else 0);
                p = replicate initial_slashes CHR ''/''
                    @ join_sep (normpath_comps initial_slashes (split_sep path) [])
            in if p = [] then ''.'' else p))"

definition posix_join :: "string \<Rightarrow> string \<Rightarrow> string" where
  "posix_join a b =
     (if take 1 b = ''/'' then b
      else if a = [] \<or> last a = CHR ''/'' then a @ b
      else a @ ''/'' @ b)"

definition posix_abspath :: "string \<Rightarrow> string \<Rightarrow> string" where
  "posix_abspath cwd path =
     posix_normpath (if take 1 path = ''/'' then path else posix_join cwd path)"

section \<open>Concrete engines, hosts and registries\<close>

definition sample_context :: Context where
  "sample_context = \<lparr>ctx_str = ''Shot 010'', filesystem_locations = [],
     shotgun_url = ''https://studio.example/detail/Shot/10'', project = Some ''Demo''\<rparr>"

definition other_context :: Context where
  "other_context = \<lparr>ctx_str = ''Shot 020'', filesystem_locations = [],
     shotgun_url = ''https://studio.example/detail/Shot/20'', project = Some ''Demo''\<rparr>"

text \<open>
  An engine with nothing registered, started in the directory \<^verbatim>\<open>/proj\<close> on the
  script \<^verbatim>\<open>scenes/shot.gfr\<close>, as \<^verbatim>\<open>pre_app_init\<close> leaves the document name.
\<close>

definition sample_engine :: GafferEngine where
  "sample_engine =
     \<lparr>commands = [], apps = [], engine_context = sample_context, menu_favourites = [],
      application = True,
      script = Some \<lparr>fileName = ''scenes/shot.gfr'', has_menubar = True\<rparr>,
      active_document_filename = ''untitled'',
      creating_menu = False, menu_generator = None,
      engine_menu_name = ''Shotgun'', active_doc_timer = None\<rparr>"

definition sample_world :: world where
  "sample_world = \<lparr>engine = sample_engine, current_engine_set = True, log = [], pending = [],
     app_state = 0\<rparr>"

text \<open>A host whose only file is the script; the path belongs to no pipeline configuration.\<close>

definition sample_host :: host where
  "sample_host =
     \<lparr>path_exists = (\<lambda>p. p = ''scenes/shot.gfr''),
      abspath = posix_abspath ''/proj'',
      sgtk_from_path = (\<lambda>p. Inl (TankError ''no pipeline configuration'')),
      context_from_path = (\<lambda>tk p previous. Inr (Some previous)),
      context_from_entity_dictionary = (\<lambda>tk p. Inr sample_context),
      context_ne = (\<lambda>a b. shotgun_url a \<noteq> shotgun_url b),
      change_context = (\<lambda>ctx e. Inr (e\<lparr>engine_context := ctx\<rparr>)),
      call = (\<lambda>cb w. Inl (PyException ''callback failed'', w))\<rparr>"

text \<open>
  A host that resolves the script to another context and whose \<^verbatim>\<open>change_context\<close>
  raises the given exception.
\<close>

definition failing_host :: "exn \<Rightarrow> host" where
  "failing_host e =
     sample_host\<lparr>sgtk_from_path := (\<lambda>p. Inr 1),
                 context_from_path := (\<lambda>tk p previous. Inr (Some other_context)),
                 change_context := (\<lambda>ctx en. Inl (e, en))\<rparr>"

text \<open>
  A host on which \<^verbatim>\<open>sgtk_from_path\<close> succeeds and \<^verbatim>\<open>context_from_path\<close>
  gives the stated outcome.
\<close>

definition resolving_host :: "exn + Context option \<Rightarrow> host" where
  "resolving_host found =
     sample_host\<lparr>sgtk_from_path := (\<lambda>p. Inr 1),
                 context_from_path := (\<lambda>tk p previous. found)\<rparr>"

text \<open>
  A host on which running a callable destroys the engine, so that no engine is
  current any more, and then raises the given exception.
\<close>

definition teardown_host :: "exn \<Rightarrow> host" where
  "teardown_host e = sample_host\<lparr>call := (\<lambda>cb w. Inl (e, w\<lparr>current_engine_set := False\<rparr>))\<rparr>"

text \<open>A registry whose one command has an \<^verbatim>\<open>enable_callback\<close> that raises.\<close>

definition raising_command :: command_dict where
  "raising_command =
     \<lparr>dict_properties = Some (no_properties\<lparr>enable_callback := Some (\<lambda>st. Inl (PyException ''enable_callback failed''))\<rparr>),
      dict_callback = Some (App_callback 1)\<rparr>"

definition raising_world :: world where
  "raising_world = sample_world\<lparr>engine := sample_engine\<lparr>commands := [(''Publish...'', raising_command)]\<rparr>\<rparr>"

text \<open>
  The registry of the scenario: \<^verbatim>\<open>Open\<close> and \<^verbatim>\<open>Save\<close> of the app \<^verbatim>\<open>AppA\<close>,
  \<^verbatim>\<open>Render\<close> of the app \<^verbatim>\<open>AppB\<close>, in each of the orders in which the
  dictionary may hold them, and \<^verbatim>\<open>Render\<close> as the one favourite.
\<close>

definition scenario_app :: "nat \<Rightarrow> string \<Rightarrow> app" where
  "scenario_app i nm = \<lparr>app_ident = i, display_name = nm\<rparr>"

definition scenario_command :: "app \<Rightarrow> nat \<Rightarrow> command_dict" where
  "scenario_command a k =
     \<lparr>dict_properties = Some (no_properties\<lparr>app := Some a\<rparr>), dict_callback = Some (App_callback k)\<rparr>"

definition scenario_registries :: "(string \<times> command_dict) list list" where
  "scenario_registries =
     (let open_cmd = (''Open'', scenario_command (scenario_app 1 ''AppA'') 1);
          save_cmd = (''Save'', scenario_command (scenario_app 1 ''AppA'') 2);
          render_cmd = (''Render'', scenario_command (scenario_app 2 ''AppB'') 3)
      in [[open_cmd, save_cmd, render_cmd], [open_cmd, render_cmd, save_cmd],
          [save_cmd, open_cmd, render_cmd], [save_cmd, render_cmd, open_cmd],
          [render_cmd, open_cmd, save_cmd], [render_cmd, save_cmd, open_cmd]])"

definition scenario_engine :: "(string \<times> command_dict) list \<Rightarrow> favourite_setting list \<Rightarrow> Context \<Rightarrow> Engine" where
  "scenario_engine registry favourites ctx =
     \<lparr>commands = registry,
      apps = [(''AppA'', scenario_app 1 ''AppA''), (''AppB'', scenario_app 2 ''AppB'')],
      engine_context = ctx,
      menu_favourites = favourites\<rparr>"

definition plain_item :: "string \<Rightarrow> callable \<Rightarrow> menu_item" where
  "plain_item nm cb = Item \<lparr>command = Some (Callback cb), label = nm, searchText = Some nm,
     description = None, shortCut = None, active = None, checkBox = None\<rparr>"

text \<open>The entries of the context submenu, with or without file system locations.\<close>

definition scenario_context_submenu :: "Context \<Rightarrow> (string \<times> menu_item) list" where
  "scenario_context_submenu ctx =
     (if filesystem_locations ctx = []
      then [(''/'' @ ctx_str ctx @ ''/Jump to Shotgun2'', plain_item ''Jump to Shotgun'' Jump_to_sg)]
      else [(''/'' @ ctx_str ctx @ ''/Jump to Shotgun2'', plain_item ''Jump to Shotgun'' Jump_to_sg),
            (''/'' @ ctx_str ctx @ ''/Jump to File System3'',
             Item \<lparr>command = Some (Callback Jump_to_fs), label = ''Jump to File System'',
                   searchText = Some ''Jump to File System'', description = Some ''my tooliotoop'',
                   shortCut = None, active = None, checkBox = None\<rparr>)])
     @ [(''/'' @ ctx_str ctx @ ''/divider2'', Divider)]"

text \<open>The menu expected in the scenario; \<open>k\<close> is the item counter after the context submenu.\<close>

definition scenario_menu :: "Context \<Rightarrow> (string \<times> menu_item) list" where
  "scenario_menu ctx =
     (let k = (if filesystem_locations ctx = [] then 2 else 3)
      in scenario_context_submenu ctx @
         [(''/divider3'', Divider),
          (''/Render'' @ str_nat (k + 1), plain_item ''Render'' (App_callback 3)),
          (''/divider4'', Divider),
          (''/AppA/Open'' @ str_nat (k + 2), plain_item ''Open'' (App_callback 1)),
          (''/AppA/Save'' @ str_nat (k + 3), plain_item ''Save'' (App_callback 2)),
          (''/divider5'', Divider)])"

section \<open>The layout of a built menu\<close>

text \<open>
  A second description of the menu, following the sections of the specification and
  free of counters, to compare the generator with. A slot is an entry before it is
  numbered: a divider under a parent menu, or an item with a label under a parent
  menu. \<open>number_slots\<close> gives the slots their paths and labels, counting dividers
  and items from the two counters as \<^verbatim>\<open>_add_divider\<close> and \<^verbatim>\<open>_add_menu_item\<close> do.
\<close>

datatype slot = Divider_in string | Item_in string string

fun number_slots :: "nat \<Rightarrow> nat \<Rightarrow> slot list \<Rightarrow> (string \<times> string option) list" where
  "number_slots d m [] = []"
| "number_slots d m (Divider_in parent # slots) =
     (parent @ ''/divider'' @ str_nat (d + 1), None) # number_slots (d + 1) m slots"
| "number_slots d m (Item_in parent nm # slots) =
     (parent @ ''/'' @ nm @ str_nat (m + 1), Some nm) # number_slots d (m + 1) slots"

fun is_divider :: "slot \<Rightarrow> bool" where
  "is_divider (Divider_in parent) = True"
| "is_divider (Item_in parent nm) = False"


fun entry_label :: "menu_item \<Rightarrow> string option" where
  "entry_label Divider = None"
| "entry_label (Item d) = Some (label d)"

definition outline :: "(string \<times> menu_item) list \<Rightarrow> (string \<times> string option) list" where
  "outline md = map (\<lambda>(path, item). (path, entry_label item)) md"


definition favourite_matches :: "'e Engine_scheme \<Rightarrow> favourite_setting \<Rightarrow> AppCommand \<Rightarrow> bool" where
  "favourite_matches eng fav cmd =
     (get_app_instance_name eng cmd = Some (app_instance fav) \<and> name cmd = fav_name fav)"

definition sorted_commands :: "'e Engine_scheme \<Rightarrow> AppCommand list" where
  "sorted_commands eng =
     sort_key name (map (\<lambda>(cmd_name, cmd_details). AppCommand_init cmd_name cmd_details) (commands eng))"

definition promote :: "'e Engine_scheme \<Rightarrow> favourite_setting list \<Rightarrow> AppCommand \<Rightarrow> AppCommand" where
  "promote eng favs cmd =
     cmd\<lparr>favourite := (favourite cmd \<or> list_ex (\<lambda>fav. favourite_matches eng fav cmd) favs)\<rparr>"

definition app_key :: "AppCommand \<Rightarrow> string" where
  "app_key cmd = (case get_app_name cmd of None \<Rightarrow> ''Other Items'' | Some n \<Rightarrow> n)"

definition context_layout :: "'e Engine_scheme \<Rightarrow> slot list" where
  "context_layout eng =
     (let ctx_menu = ''/'' @ ctx_str (engine_context eng)
      in [Item_in ctx_menu ''Jump to Shotgun'']
         @ (if filesystem_locations (engine_context eng) \<noteq> [] then [Item_in ctx_menu ''Jump to File System''] else [])
         @ [Divider_in ctx_menu, Divider_in []])"

definition promoted_layout :: "'e Engine_scheme \<Rightarrow> slot list" where
  "promoted_layout eng =
     concat (map (\<lambda>fav. map (\<lambda>cmd. Item_in [] (name cmd))
                           (filter (favourite_matches eng fav) (sorted_commands eng)))
                 (menu_favourites eng))"

definition app_group :: "'e Engine_scheme \<Rightarrow> string \<Rightarrow> AppCommand list" where
  "app_group eng k =
     filter (\<lambda>cmd. get_type cmd \<noteq> ''context_menu'' \<and> app_key cmd = k)
       (map (promote eng (menu_favourites eng)) (sorted_commands eng))"

definition group_layout :: "string \<Rightarrow> AppCommand list \<Rightarrow> slot list" where
  "group_layout k cmds =
     (if length cmds > 1 then map (\<lambda>cmd. Item_in (''/'' @ k) (name cmd)) cmds
      else map (\<lambda>cmd. Item_in [] (name cmd)) (filter (\<lambda>cmd. \<not> favourite cmd) cmds))"

definition remaining_layout :: "'e Engine_scheme \<Rightarrow> slot list" where
  "remaining_layout eng =
     map (\<lambda>cmd. Item_in (''/'' @ ctx_str (engine_context eng)) (name cmd))
       (filter (\<lambda>cmd. get_type cmd = ''context_menu'') (sorted_commands eng))
     @ concat (map (\<lambda>k. group_layout k (app_group eng k))
         (sort (remdups (map app_key
            (filter (\<lambda>cmd. get_type cmd \<noteq> ''context_menu'') (sorted_commands eng))))))
     @ [Divider_in []]"

definition menu_layout :: "'e Engine_scheme \<Rightarrow> slot list" where
  "menu_layout eng =
     context_layout eng @ promoted_layout eng
     @ (if menu_favourites eng = [] then [] else [Divider_in []])
     @ remaining_layout eng"

text \<open>
  Auxiliary notions of the proofs: a run of generator methods that appends the
  numbered slots and advances the counters accordingly, the slots the loop of
  \<^verbatim>\<open>_add_app_menu\<close> contributes for one key of \<^verbatim>\<open>commands_by_app\<close>, the
  dictionary that the grouping loop builds, and the number of slots with a label.
\<close>

definition emits :: "MenuGenerator \<Rightarrow> slot list \<Rightarrow> MenuGenerator \<Rightarrow> bool" where
  "emits g slots g' =
     (menu_name g' = menu_name g
      \<and> divider_id g' = divider_id g + length (filter is_divider slots)
      \<and> menu_item_id g' = menu_item_id g + length (filter (\<lambda>s. \<not> is_divider s) slots)
      \<and> (\<exists>md es. menu_def g = Some md \<and> menu_def g' = Some (md @ es)
            \<and> outline es = number_slots (divider_id g) (menu_item_id g) slots))"

definition app_slots :: "(string \<times> AppCommand list) list \<Rightarrow> string \<Rightarrow> slot list" where
  "app_slots by_app k =
     (case map_of by_app k of
        None \<Rightarrow> []
      | Some cmds \<Rightarrow>
          if length cmds > 1 then map (\<lambda>cmd. Item_in (''/'' @ k) (name cmd)) (sort_key name cmds)
          else (case cmds of [] \<Rightarrow> [] | cmd # _ \<Rightarrow> if favourite cmd then [] else [Item_in [] (name cmd)]))"

definition group_by_app :: "(string \<times> AppCommand list) list \<Rightarrow> AppCommand list \<Rightarrow> (string \<times> AppCommand list) list" where
  "group_by_app d cmds = foldl (\<lambda>d cmd. append_to_app (app_key cmd) cmd d) d cmds"


text \<open>The registry of the scenario in the order \<^verbatim>\<open>Open\<close>, \<^verbatim>\<open>Save\<close>, \<^verbatim>\<open>Render\<close>.\<close>

definition scenario_registry :: "(string \<times> command_dict) list" where
  "scenario_registry =
     [(''Open'', scenario_command (scenario_app 1 ''AppA'') 1),
      (''Save'', scenario_command (scenario_app 1 ''AppA'') 2),
      (''Render'', scenario_command (scenario_app 2 ''AppB'') 3)]"

text \<open>
  Two states in which the two callbacks of a registry entry give the same (a value
  or an exception), and two states in which \<^verbatim>\<open>_add_menu_item\<close> describes a command
  in the same way.
\<close>

definition callbacks_agree :: "app_state \<Rightarrow> app_state \<Rightarrow> command_dict \<Rightarrow> bool" where
  "callbacks_agree st st' cmd_details =
     (case dict_properties cmd_details of
        None \<Rightarrow> True
      | Some p \<Rightarrow>
          map_option (\<lambda>enable_callback. enable_callback st) (enable_callback p)
            = map_option (\<lambda>enable_callback. enable_callback st') (enable_callback p)
          \<and> map_option (\<lambda>checkable_callback. checkable_callback st) (checkable_callback p)
            = map_option (\<lambda>checkable_callback. checkable_callback st') (checkable_callback p))"

definition same_description :: "app_state \<Rightarrow> app_state \<Rightarrow> AppCommand \<Rightarrow> bool" where
  "same_description st st' cmd =
     (describe_item st (name cmd) (callback cmd) (Some (properties cmd))
      = describe_item st' (name cmd) (callback cmd) (Some (properties cmd)))"

text \<open>
  The registry of the scenario with callbacks that read the state: \<^verbatim>\<open>Open\<close> is
  enabled while the state is below 2, \<^verbatim>\<open>Save\<close> is checked from state 2 on. The
  same registry with \<^verbatim>\<open>Render\<close> of type \<^verbatim>\<open>context_menu\<close>.
\<close>

definition polled_registry :: "(string \<times> command_dict) list" where
  "polled_registry =
     [(''Open'', \<lparr>dict_properties = Some (no_properties\<lparr>app := Some (scenario_app 1 ''AppA''),
                     enable_callback := Some (\<lambda>st. Inr (st < 2))\<rparr>),
                 dict_callback = Some (App_callback 1)\<rparr>),
      (''Save'', \<lparr>dict_properties = Some (no_properties\<lparr>app := Some (scenario_app 1 ''AppA''),
                     checkable_callback := Some (\<lambda>st. Inr (2 \<le> st))\<rparr>),
                 dict_callback = Some (App_callback 2)\<rparr>),
      (''Render'', scenario_command (scenario_app 2 ''AppB'') 3)]"

definition polled_world :: world where
  "polled_world =
     sample_world\<lparr>engine := sample_engine
       \<lparr>commands := polled_registry,
        apps := [(''AppA'', scenario_app 1 ''AppA''), (''AppB'', scenario_app 2 ''AppB'')],
        menu_favourites := [\<lparr>app_instance = ''AppB'', fav_name = ''Render''\<rparr>]\<rparr>\<rparr>"


section \<open>Unfolding rules\<close>

lemmas scenario_defs = scenario_engine_def scenario_registry_def scenario_command_def scenario_app_def

lemmas layout_defs = menu_layout_def context_layout_def promoted_layout_def remaining_layout_def
  group_layout_def app_group_def promote_def favourite_matches_def sorted_commands_def app_key_def

lemmas menu_defs = create_menu_def add_context_menu_def add_menu_item_def add_divider_def md_append_def
  describe_item_def add_sub_menu_def add_command_to_menu_def add_app_menu_def AppCommand_init_def
  get_app_name_def get_app_instance_name_def get_type_def no_properties_def MenuGenerator_init_def

lemmas engine_defs = check_if_document_changed_def refresh_engine_def create_shotgun_menu_def write_log_def
  display_warning_def refresh_count_def has_ui_def is_batch_mode_def can_create_menu_def project_context_def

lemmas sample_defs = sample_world_def sample_engine_def sample_host_def sample_context_def other_context_def
  failing_host_def raising_world_def raising_command_def resolving_host_def teardown_host_def

lemmas posix_defs = posix_abspath_def posix_join_def posix_normpath_def

section \<open>The disabled menu\<close>

text \<open>
  C9. With \<^verbatim>\<open>disabled=True\<close>, whatever the engine has registered and whatever the
  generator held before, \<^verbatim>\<open>create_menu\<close> returns normally and the menu definition
  is exactly the one placeholder item \<^verbatim>\<open>/menu_disabled\<close>, whose command is
  \<^verbatim>\<open>None\<close>; the counters are untouched, so no command was added.
\<close>

theorem create_menu_disabled:
  "create_menu st eng True g =
     Inr (g\<lparr>menu_def := Some [(''/menu_disabled'', Item menu_disabled)]\<rparr>)
   \<and> command menu_disabled = None"
  by (simp add: create_menu_def md_append_def menu_disabled_def)

section \<open>The scenario of the three commands\<close>

text \<open>
  C2. For the registry \<^verbatim>\<open>Open\<close>, \<^verbatim>\<open>Save\<close> (app \<^verbatim>\<open>AppA\<close>) and \<^verbatim>\<open>Render\<close>
  (app \<^verbatim>\<open>AppB\<close>), in whatever order the dictionary holds them, with the favourite
  \<^verbatim>\<open>(AppB, Render)\<close>, any context and a new generator, \<^verbatim>\<open>create_menu\<close> with
  \<^verbatim>\<open>disabled=False\<close> returns and appends exactly: the entries of the context
  submenu, a top-level divider, the item \<^verbatim>\<open>Render\<close> at the top level, a divider, the
  items \<^verbatim>\<open>Open\<close> then \<^verbatim>\<open>Save\<close> under the submenu \<^verbatim>\<open>/AppA\<close>, and a last divider.
  Nothing is appended for \<^verbatim>\<open>AppB\<close> after the favourite.
\<close>

theorem scenario_top_level_order:
  "list_all (\<lambda>registry.
       map_sum fst menu_def
         (create_menu st (scenario_engine registry [\<lparr>app_instance = ''AppB'', fav_name = ''Render''\<rparr>] ctx)
            False (MenuGenerator_init nm))
       = Inr (Some (scenario_menu ctx)))
     scenario_registries"
  by (simp add: menu_defs scenario_engine_def scenario_registries_def scenario_command_def scenario_app_def
      scenario_menu_def scenario_context_submenu_def plain_item_def str_nat.simps Let_def)

section \<open>Polling the document\<close>

text \<open>
  C10. When the script's \<^verbatim>\<open>fileName\<close> does not exist on the file system,
  \<^verbatim>\<open>check_if_document_changed\<close> returns normally, the engine (and with it the stored
  document name) is unchanged, \<^verbatim>\<open>refresh_engine\<close> has not run and no timer was
  registered, whatever the stored name is.
\<close>

theorem check_if_document_changed_missing_file:
  assumes "script (engine w) = Some scr" and "\<not> path_exists h (fileName scr)"
  shows "\<exists>w'. check_if_document_changed h w = Inr w' \<and> engine w' = engine w
           \<and> refresh_count w' = refresh_count w \<and> pending w' = pending w"
  using assms by (simp add: check_if_document_changed_def write_log_def refresh_count_def)

theorem check_if_document_changed_missing_file_witness:
  "script (engine sample_world) = Some \<lparr>fileName = ''scenes/shot.gfr'', has_menubar = True\<rparr>
   \<and> \<not> path_exists (sample_host\<lparr>path_exists := (\<lambda>p. False)\<rparr>) ''scenes/shot.gfr''
   \<and> active_document_filename (engine sample_world) \<noteq> ''scenes/shot.gfr''
   \<and> (\<exists>w'. check_if_document_changed (sample_host\<lparr>path_exists := (\<lambda>p. False)\<rparr>) sample_world = Inr w'
          \<and> engine w' = engine sample_world
          \<and> refresh_count w' = refresh_count sample_world \<and> pending w' = pending sample_world)"
  using check_if_document_changed_missing_file
    [of sample_world "\<lparr>fileName = ''scenes/shot.gfr'', has_menubar = True\<rparr>"
        "sample_host\<lparr>path_exists := (\<lambda>p. False)\<rparr>"]
  by (simp add: sample_defs)

text \<open>
  C1. The engine runs in \<^verbatim>\<open>/proj\<close> on the existing script \<^verbatim>\<open>scenes/shot.gfr\<close>,
  a path that \<^verbatim>\<open>abspath\<close> changes. The timer fires twice while the script stays the
  same: \<^verbatim>\<open>refresh_engine\<close> runs on both ticks, since the stored name is compared after
  \<^verbatim>\<open>abspath\<close> with the plug's value as it is.
\<close>

theorem check_if_document_changed_refreshes_twice:
  "map_sum fst (\<lambda>w. (refresh_count w, map_option fileName (script (engine w)), active_document_filename (engine w)))
     (on_active_doc_timer sample_host 2 sample_world)
   = Inr (2, Some ''scenes/shot.gfr'', ''/proj/scenes/shot.gfr'')"
  by (simp add: numeral_2_eq_2 engine_defs sample_defs posix_defs Let_def)

section \<open>The build lock\<close>

text \<open>
  C3. A registry whose one command has an \<^verbatim>\<open>enable_callback\<close> that raises: the
  exception leaves \<^verbatim>\<open>create_shotgun_menu\<close> and \<^verbatim>\<open>_creating_menu\<close> is still set.
\<close>

theorem create_shotgun_menu_raises_locked:
  "map_sum (\<lambda>(ex, w). (ex, creating_menu (engine w))) fst (create_shotgun_menu False raising_world)
   = Inl (PyException ''enable_callback failed'', True)"
  by (simp add: engine_defs sample_defs menu_defs str_nat.simps)

section \<open>Failures while refreshing the engine\<close>

lemma create_menu_placeholder:
  "create_menu st e True g = Inr (g\<lparr>menu_def := Some [(''/menu_disabled'', Item menu_disabled)]\<rparr>)"
  by (simp add: create_menu_def md_append_def)

lemma write_log_sel:
  "engine (write_log entry w) = engine w"
  "pending (write_log entry w) = pending w"
  "current_engine_set (write_log entry w) = current_engine_set w"
  "script (engine (write_log entry w)) = script (engine w)"
  by (simp_all add: write_log_def)

lemma refresh_engine_resolved:
  assumes "current_engine_set w" and "script (engine w) = Some scr" and "fileName scr \<noteq> []"
    and "sgtk_from_path h (abspath h (fileName scr)) = Inr tk"
    and "context_from_path h tk (abspath h (fileName scr)) (engine_context (engine w)) = Inr (Some ctx)
         \<or> context_from_path h tk (abspath h (fileName scr)) (engine_context (engine w)) = Inr None
           \<and> project (engine_context (engine w)) = Some pn
           \<and> context_from_entity_dictionary h tk pn = Inr ctx"
  shows "\<exists>w3. engine w3 = engine w \<and> pending w3 = pending w
           \<and> refresh_engine h w =
               (if context_ne h ctx (engine_context (engine w))
                then (case change_context h ctx (engine w) of
                        Inr e' \<Rightarrow> Inr (w3\<lparr>engine := e'\<rparr>)
                      | Inl (e, e') \<Rightarrow>
                          if is_TankError e
                          then (case create_shotgun_menu True
                                       (display_warning ''Shotgun Gaffer Engine could not change context. Shotgun menu will be disabled!.''
                                          (w3\<lparr>engine := e'\<rparr>)) of
                                  Inl x \<Rightarrow> Inl x
                                | Inr (_, w4) \<Rightarrow> Inr w4)
                          else Inl (e, w3\<lparr>engine := e'\<rparr>))
                else Inr w3)"
  using assms(5)
proof
  assume "context_from_path h tk (abspath h (fileName scr)) (engine_context (engine w)) = Inr (Some ctx)"
  with assms(1-4) show ?thesis
    by (intro exI [of _ "write_log (Debug ''Given the path the following context was extracted'')
          (write_log (Debug ''Extracted sgtk instance'') (write_log (Debug ''Refreshing the engine'') w))"])
       (simp add: refresh_engine_def write_log_sel Let_def)
next
  assume "context_from_path h tk (abspath h (fileName scr)) (engine_context (engine w)) = Inr None
           \<and> project (engine_context (engine w)) = Some pn
           \<and> context_from_entity_dictionary h tk pn = Inr ctx"
  with assms(1-4) show ?thesis
    by (intro exI [of _ "write_log (Debug ''Could not extract a context from the current active project path'')
          (write_log (Debug ''Given the path the following context was extracted'')
            (write_log (Debug ''Extracted sgtk instance'') (write_log (Debug ''Refreshing the engine'') w)))"])
       (simp add: refresh_engine_def project_context_def write_log_sel Let_def)
qed

lemma create_shotgun_menu_disabled_warned:
  "\<exists>r w'. create_shotgun_menu True (display_warning msg w) = Inr (r, w')
     \<and> Warning msg \<in> set (log w')
     \<and> (can_create_menu (script (engine w)) \<longrightarrow>
          map_option get_menu_definition (menu_generator (engine w'))
            = Some (Some [(''/menu_disabled'', Item menu_disabled)]))"
  by (auto simp: create_shotgun_menu_def has_ui_def is_batch_mode_def write_log_def display_warning_def
      Let_def create_menu_placeholder get_menu_definition_def MenuGenerator_init_def)

text \<open>
  C7, as the claim states it, fails: \<^verbatim>\<open>change_context\<close> raising an exception that
  is not a \<^verbatim>\<open>TankError\<close> leaves \<^verbatim>\<open>refresh_engine\<close> as that exception.
\<close>

theorem refresh_engine_propagates_other_exception:
  "map_sum fst (\<lambda>w. ()) (refresh_engine (failing_host (PyException ''change_context failed'')) sample_world)
   = Inl (PyException ''change_context failed'')"
  by (simp add: engine_defs sample_defs)

text \<open>
  C7, amended. \<^verbatim>\<open>refresh_engine\<close> absorbs \<^verbatim>\<open>TankError\<close> at two calls and nothing
  else. With an engine, a script and a file name:
  when \<^verbatim>\<open>sgtk_from_path\<close> raises, a \<^verbatim>\<open>TankError\<close> makes it return with the engine
  unchanged (no context change, no timer) after logging one warning, and any other
  exception leaves it;
  when \<^verbatim>\<open>context_from_path\<close> raises, the exception leaves it, a \<^verbatim>\<open>TankError\<close>
  included;
  when \<^verbatim>\<open>context_from_path\<close> finds nothing, the fallback to the project raises
  \<^verbatim>\<open>AttributeError\<close> on a context without project, and an exception of
  \<^verbatim>\<open>context_from_entity_dictionary\<close> leaves it;
  when a context is resolved, from the path or from the project, that
  \<^verbatim>\<open>Context.__ne__\<close> does not tell apart from the current one, it returns with the
  engine unchanged; otherwise \<^verbatim>\<open>change_context\<close> is called, and the engine is the
  one it returns, or, when it raises \<^verbatim>\<open>TankError\<close>, a warning is logged and
  \<^verbatim>\<open>create_shotgun_menu(disabled=True)\<close> leaves the placeholder menu whenever the
  script has a menu bar, or, when it raises anything else, the exception leaves
  \<^verbatim>\<open>refresh_engine\<close>.
\<close>

theorem refresh_engine_absorbs_TankError:
  assumes "current_engine_set w" and "script (engine w) = Some scr" and "fileName scr \<noteq> []"
  shows "(sgtk_from_path h (abspath h (fileName scr)) = Inl e \<longrightarrow>
            (if is_TankError e
             then (\<exists>w'. refresh_engine h w = Inr w' \<and> engine w' = engine w \<and> pending w' = pending w
                     \<and> log w' = log w @ [Debug ''Refreshing the engine'',
                          Warning ''Shotgun Gaffer Engine could not detect the context from the active document.''])
             else (\<exists>w'. refresh_engine h w = Inl (e, w') \<and> engine w' = engine w)))
       \<and> (sgtk_from_path h (abspath h (fileName scr)) = Inr tk \<longrightarrow>
            (context_from_path h tk (abspath h (fileName scr)) (engine_context (engine w)) = Inl e \<longrightarrow>
               (\<exists>w'. refresh_engine h w = Inl (e, w') \<and> engine w' = engine w))
          \<and> (context_from_path h tk (abspath h (fileName scr)) (engine_context (engine w)) = Inr None \<longrightarrow>
               (project (engine_context (engine w)) = None \<longrightarrow>
                  (\<exists>w'. refresh_engine h w = Inl (AttributeError ''get'', w') \<and> engine w' = engine w))
             \<and> (project (engine_context (engine w)) = Some pn \<longrightarrow>
                context_from_entity_dictionary h tk pn = Inl e \<longrightarrow>
                  (\<exists>w'. refresh_engine h w = Inl (e, w') \<and> engine w' = engine w)))
          \<and> (context_from_path h tk (abspath h (fileName scr)) (engine_context (engine w)) = Inr (Some ctx)
               \<or> context_from_path h tk (abspath h (fileName scr)) (engine_context (engine w)) = Inr None
                 \<and> project (engine_context (engine w)) = Some pn
                 \<and> context_from_entity_dictionary h tk pn = Inr ctx \<longrightarrow>
               (\<not> context_ne h ctx (engine_context (engine w)) \<longrightarrow>
                  (\<exists>w'. refresh_engine h w = Inr w' \<and> engine w' = engine w \<and> pending w' = pending w))
             \<and> (context_ne h ctx (engine_context (engine w)) \<longrightarrow>
                  (change_context h ctx (engine w) = Inr e' \<longrightarrow>
                     (\<exists>w'. refresh_engine h w = Inr w' \<and> engine w' = e'))
                \<and> (change_context h ctx (engine w) = Inl (e, e') \<longrightarrow>
                     (if is_TankError e
                      then (\<exists>w'. refresh_engine h w = Inr w'
                              \<and> Warning ''Shotgun Gaffer Engine could not change context. Shotgun menu will be disabled!.''
                                  \<in> set (log w')
                              \<and> (can_create_menu (script e') \<longrightarrow>
                                   map_option get_menu_definition (menu_generator (engine w'))
                                     = Some (Some [(''/menu_disabled'', Item menu_disabled)])))
                      else (\<exists>w'. refresh_engine h w = Inl (e, w') \<and> engine w' = e'))))))"
proof (intro conjI impI)
  assume "sgtk_from_path h (abspath h (fileName scr)) = Inl e"
  with assms show "if is_TankError e
       then (\<exists>w'. refresh_engine h w = Inr w' \<and> engine w' = engine w \<and> pending w' = pending w
               \<and> log w' = log w @ [Debug ''Refreshing the engine'',
                    Warning ''Shotgun Gaffer Engine could not detect the context from the active document.''])
       else (\<exists>w'. refresh_engine h w = Inl (e, w') \<and> engine w' = engine w)"
    by (simp add: refresh_engine_def write_log_def display_warning_def Let_def)
next
  assume "sgtk_from_path h (abspath h (fileName scr)) = Inr tk"
    and "context_from_path h tk (abspath h (fileName scr)) (engine_context (engine w)) = Inl e"
  with assms show "\<exists>w'. refresh_engine h w = Inl (e, w') \<and> engine w' = engine w"
    by (simp add: refresh_engine_def write_log_def Let_def)
next
  assume "sgtk_from_path h (abspath h (fileName scr)) = Inr tk"
    and "context_from_path h tk (abspath h (fileName scr)) (engine_context (engine w)) = Inr None"
    and "project (engine_context (engine w)) = None"
  with assms show "\<exists>w'. refresh_engine h w = Inl (AttributeError ''get'', w') \<and> engine w' = engine w"
    by (simp add: refresh_engine_def project_context_def write_log_def Let_def)
next
  assume "sgtk_from_path h (abspath h (fileName scr)) = Inr tk"
    and "context_from_path h tk (abspath h (fileName scr)) (engine_context (engine w)) = Inr None"
    and "project (engine_context (engine w)) = Some pn"
    and "context_from_entity_dictionary h tk pn = Inl e"
  with assms show "\<exists>w'. refresh_engine h w = Inl (e, w') \<and> engine w' = engine w"
    by (simp add: refresh_engine_def project_context_def write_log_def Let_def)
next
  assume a: "sgtk_from_path h (abspath h (fileName scr)) = Inr tk"
    "context_from_path h tk (abspath h (fileName scr)) (engine_context (engine w)) = Inr (Some ctx)
       \<or> context_from_path h tk (abspath h (fileName scr)) (engine_context (engine w)) = Inr None
         \<and> project (engine_context (engine w)) = Some pn
         \<and> context_from_entity_dictionary h tk pn = Inr ctx"
    "\<not> context_ne h ctx (engine_context (engine w))"
  from refresh_engine_resolved [OF assms a(1,2)] a(3)
  show "\<exists>w'. refresh_engine h w = Inr w' \<and> engine w' = engine w \<and> pending w' = pending w"
    by auto
next
  assume a: "sgtk_from_path h (abspath h (fileName scr)) = Inr tk"
    "context_from_path h tk (abspath h (fileName scr)) (engine_context (engine w)) = Inr (Some ctx)
       \<or> context_from_path h tk (abspath h (fileName scr)) (engine_context (engine w)) = Inr None
         \<and> project (engine_context (engine w)) = Some pn
         \<and> context_from_entity_dictionary h tk pn = Inr ctx"
    "context_ne h ctx (engine_context (engine w))"
    "change_context h ctx (engine w) = Inr e'"
  from refresh_engine_resolved [OF assms a(1,2)] a(3,4)
  show "\<exists>w'. refresh_engine h w = Inr w' \<and> engine w' = e'"
    by auto
next
  assume a: "sgtk_from_path h (abspath h (fileName scr)) = Inr tk"
    "context_from_path h tk (abspath h (fileName scr)) (engine_context (engine w)) = Inr (Some ctx)
       \<or> context_from_path h tk (abspath h (fileName scr)) (engine_context (engine w)) = Inr None
         \<and> project (engine_context (engine w)) = Some pn
         \<and> context_from_entity_dictionary h tk pn = Inr ctx"
    "context_ne h ctx (engine_context (engine w))"
    "change_context h ctx (engine w) = Inl (e, e')"
  from refresh_engine_resolved [OF assms a(1,2)] a(3,4) obtain w3 where
    r: "refresh_engine h w =
          (if is_TankError e
           then (case create_shotgun_menu True
                        (display_warning ''Shotgun Gaffer Engine could not change context. Shotgun menu will be disabled!.''
                           (w3\<lparr>engine := e'\<rparr>)) of
                   Inl x \<Rightarrow> Inl x
                 | Inr (_, w4) \<Rightarrow> Inr w4)
           else Inl (e, w3\<lparr>engine := e'\<rparr>))"
    by auto
  show "if is_TankError e
        then (\<exists>w'. refresh_engine h w = Inr w'
                \<and> Warning ''Shotgun Gaffer Engine could not change context. Shotgun menu will be disabled!.''
                    \<in> set (log w')
                \<and> (can_create_menu (script e') \<longrightarrow>
                     map_option get_menu_definition (menu_generator (engine w'))
                       = Some (Some [(''/menu_disabled'', Item menu_disabled)])))
        else (\<exists>w'. refresh_engine h w = Inl (e, w') \<and> engine w' = e')"
  proof (cases "is_TankError e")
    case True
    from create_shotgun_menu_disabled_warned
      [of "''Shotgun Gaffer Engine could not change context. Shotgun menu will be disabled!.''" "w3\<lparr>engine := e'\<rparr>"]
    obtain r' w' where "create_shotgun_menu True
          (display_warning ''Shotgun Gaffer Engine could not change context. Shotgun menu will be disabled!.''
             (w3\<lparr>engine := e'\<rparr>)) = Inr (r', w')"
      and "Warning ''Shotgun Gaffer Engine could not change context. Shotgun menu will be disabled!.'' \<in> set (log w')"
      and "can_create_menu (script e') \<longrightarrow>
             map_option get_menu_definition (menu_generator (engine w'))
               = Some (Some [(''/menu_disabled'', Item menu_disabled)])"
      by auto
    with r True show ?thesis by simp
  next
    case False
    with r show ?thesis by simp
  qed
qed

theorem refresh_engine_absorbs_TankError_witness:
  "(\<exists>w'. refresh_engine sample_host sample_world = Inr w' \<and> engine w' = engine sample_world)
   \<and> (\<exists>w'. refresh_engine (sample_host\<lparr>sgtk_from_path := (\<lambda>p. Inl (PyException ''disk error''))\<rparr>) sample_world
              = Inl (PyException ''disk error'', w'))
   \<and> (\<exists>w'. refresh_engine (resolving_host (Inl (TankError ''ambiguous path''))) sample_world
              = Inl (TankError ''ambiguous path'', w'))
   \<and> (\<exists>w'. refresh_engine (resolving_host (Inr None))
               (sample_world\<lparr>engine := sample_engine\<lparr>engine_context := sample_context\<lparr>project := None\<rparr>\<rparr>\<rparr>)
              = Inl (AttributeError ''get'', w'))
   \<and> (\<exists>w'. refresh_engine
               ((resolving_host (Inr None))\<lparr>context_from_entity_dictionary := (\<lambda>tk p. Inl (TankError ''no such project''))\<rparr>)
               sample_world
              = Inl (TankError ''no such project'', w'))
   \<and> (\<exists>w'. refresh_engine (resolving_host (Inr (Some (sample_context\<lparr>ctx_str := ''Shot 010 (renamed)''\<rparr>)))) sample_world
              = Inr w' \<and> engine w' = engine sample_world)
   \<and> (\<exists>w'. refresh_engine
               ((resolving_host (Inr None))\<lparr>context_from_entity_dictionary := (\<lambda>tk p. Inr other_context)\<rparr>)
               sample_world
              = Inr w' \<and> engine w' = sample_engine\<lparr>engine_context := other_context\<rparr>)
   \<and> (\<exists>w'. refresh_engine (failing_host (TankError ''denied'')) sample_world = Inr w'
         \<and> map_option get_menu_definition (menu_generator (engine w'))
             = Some (Some [(''/menu_disabled'', Item menu_disabled)]))
   \<and> (\<exists>w'. refresh_engine (failing_host SystemExit) sample_world = Inl (SystemExit, w'))"
proof -
  let ?scr = "\<lparr>fileName = ''scenes/shot.gfr'', has_menubar = True\<rparr>"
  note t = refresh_engine_absorbs_TankError [where scr = ?scr]
  have 1: "\<exists>w'. refresh_engine sample_host sample_world = Inr w' \<and> engine w' = engine sample_world"
    using t [where w = sample_world and h = sample_host and e = "TankError ''no pipeline configuration''"]
    by (auto simp: sample_defs)
  have 2: "\<exists>w'. refresh_engine (sample_host\<lparr>sgtk_from_path := (\<lambda>p. Inl (PyException ''disk error''))\<rparr>) sample_world
              = Inl (PyException ''disk error'', w')"
    using t [where w = sample_world and h = "sample_host\<lparr>sgtk_from_path := (\<lambda>p. Inl (PyException ''disk error''))\<rparr>"
        and e = "PyException ''disk error''"]
    by (auto simp: sample_defs)
  have 3: "\<exists>w'. refresh_engine (resolving_host (Inl (TankError ''ambiguous path''))) sample_world
              = Inl (TankError ''ambiguous path'', w')"
    using t [where w = sample_world and h = "resolving_host (Inl (TankError ''ambiguous path''))"
        and e = "TankError ''ambiguous path''" and tk = 1]
    by (auto simp: sample_defs)
  have 4: "\<exists>w'. refresh_engine (resolving_host (Inr None))
               (sample_world\<lparr>engine := sample_engine\<lparr>engine_context := sample_context\<lparr>project := None\<rparr>\<rparr>\<rparr>)
              = Inl (AttributeError ''get'', w')"
    using t [where w = "sample_world\<lparr>engine := sample_engine\<lparr>engine_context := sample_context\<lparr>project := None\<rparr>\<rparr>\<rparr>"
        and h = "resolving_host (Inr None)" and tk = 1]
    by (auto simp: sample_defs)
  have 5: "\<exists>w'. refresh_engine
               ((resolving_host (Inr None))\<lparr>context_from_entity_dictionary := (\<lambda>tk p. Inl (TankError ''no such project''))\<rparr>)
               sample_world
              = Inl (TankError ''no such project'', w')"
    using t [where w = sample_world
        and h = "(resolving_host (Inr None))\<lparr>context_from_entity_dictionary := (\<lambda>tk p. Inl (TankError ''no such project''))\<rparr>"
        and tk = 1 and pn = "''Demo''" and e = "TankError ''no such project''"]
    by (auto simp: sample_defs)
  have 6: "\<exists>w'. refresh_engine (resolving_host (Inr (Some (sample_context\<lparr>ctx_str := ''Shot 010 (renamed)''\<rparr>)))) sample_world
              = Inr w' \<and> engine w' = engine sample_world"
    using t [where w = sample_world
        and h = "resolving_host (Inr (Some (sample_context\<lparr>ctx_str := ''Shot 010 (renamed)''\<rparr>)))"
        and tk = 1 and ctx = "sample_context\<lparr>ctx_str := ''Shot 010 (renamed)''\<rparr>"]
    by (auto simp: sample_defs)
  have 7: "\<exists>w'. refresh_engine
               ((resolving_host (Inr None))\<lparr>context_from_entity_dictionary := (\<lambda>tk p. Inr other_context)\<rparr>)
               sample_world
              = Inr w' \<and> engine w' = sample_engine\<lparr>engine_context := other_context\<rparr>"
    using t [where w = sample_world
        and h = "(resolving_host (Inr None))\<lparr>context_from_entity_dictionary := (\<lambda>tk p. Inr other_context)\<rparr>"
        and tk = 1 and pn = "''Demo''" and ctx = other_context
        and e' = "sample_engine\<lparr>engine_context := other_context\<rparr>"]
    by (auto simp: sample_defs)
  have 8: "\<exists>w'. refresh_engine (failing_host (TankError ''denied'')) sample_world = Inr w'
         \<and> map_option get_menu_definition (menu_generator (engine w'))
             = Some (Some [(''/menu_disabled'', Item menu_disabled)])"
    using t [where w = sample_world and h = "failing_host (TankError ''denied'')" and tk = 1
        and ctx = other_context and e = "TankError ''denied''" and e' = sample_engine]
    by (auto simp: sample_defs can_create_menu_def)
  have 9: "\<exists>w'. refresh_engine (failing_host SystemExit) sample_world = Inl (SystemExit, w')"
    using t [where w = sample_world and h = "failing_host SystemExit" and tk = 1
        and ctx = other_context and e = SystemExit and e' = sample_engine]
    by (auto simp: sample_defs)
  from 1 2 3 4 5 6 7 8 9 show ?thesis by (intro conjI)
qed

section \<open>Running a command from the menu\<close>

text \<open>
  C8, as the claim states it, fails twice. A callable that raises \<^verbatim>\<open>SystemExit\<close>:
  the guard \<^verbatim>\<open>except Exception\<close> does not catch it, and it leaves the trap with
  nothing logged. A callable that destroys the engine and then raises: the handler
  finds no current engine, and \<^verbatim>\<open>AttributeError\<close> leaves the trap with nothing
  logged.
\<close>

theorem callback_exception_escapes_trap:
  "run_deferred (sample_host\<lparr>call := (\<lambda>cb w. Inl (SystemExit, w))\<rparr>)
       (Execute_within_exception_trap (Callback (App_callback 1))) sample_world
     = Inl (SystemExit, sample_world)
   \<and> run_deferred (teardown_host (PyException ''callback failed''))
       (Execute_within_exception_trap (Callback (App_callback 1))) sample_world
     = Inl (AttributeError ''logger'', sample_world\<lparr>current_engine_set := False\<rparr>)
   \<and> log sample_world = []"
  by (simp add: run_deferred_def execute_within_exception_trap_def sample_defs)

text \<open>
  C8, amended. Calling a \<^verbatim>\<open>Callback\<close> with any arguments only registers a
  single-shot timer of delay 0 for its trap; the wrapped callable is not run. When
  the event loop later runs the trap, the callable runs. If it returns, so does the
  trap. If it raises an instance of \<^verbatim>\<open>Exception\<close> while an engine is current, the
  exception is logged through the logger of that engine and the trap returns
  normally. If it raises an exception that is not an instance of \<^verbatim>\<open>Exception\<close>,
  that exception leaves the trap and nothing is logged.
\<close>

theorem Callback_deferred_and_trapped:
  "Callback_call (Callback cb) args w
     = w\<lparr>pending := pending w @ [(0, Execute_within_exception_trap (Callback cb))]\<rparr>
   \<and> (call h cb w1 = Inr w2 \<longrightarrow>
        run_deferred h (Execute_within_exception_trap (Callback cb)) w1 = Inr w2)
   \<and> (call h cb w1 = Inl (e, w2) \<longrightarrow> is_Exception e \<longrightarrow> current_engine_set w2 \<longrightarrow>
        run_deferred h (Execute_within_exception_trap (Callback cb)) w1
          = Inr (write_log (Logged_exception ''An exception was raised from Toolkit'') w2))
   \<and> (call h cb w1 = Inl (e, w2) \<longrightarrow> \<not> is_Exception e \<longrightarrow>
        run_deferred h (Execute_within_exception_trap (Callback cb)) w1 = Inl (e, w2))"
  by (simp add: Callback_call_def run_deferred_def execute_within_exception_trap_def)

theorem Callback_deferred_and_trapped_witness:
  "Callback_call (Callback (App_callback 1)) [True, False] sample_world
       = sample_world\<lparr>pending := [(0, Execute_within_exception_trap (Callback (App_callback 1)))]\<rparr>
   \<and> run_deferred (sample_host\<lparr>call := (\<lambda>cb w. Inr (w\<lparr>pending := []\<rparr>))\<rparr>)
       (Execute_within_exception_trap (Callback (App_callback 1)))
       (Callback_call (Callback (App_callback 1)) [True, False] sample_world)
       = Inr sample_world
   \<and> run_deferred sample_host (Execute_within_exception_trap (Callback (App_callback 1))) sample_world
       = Inr (write_log (Logged_exception ''An exception was raised from Toolkit'') sample_world)
   \<and> run_deferred (sample_host\<lparr>call := (\<lambda>cb w. Inl (KeyboardInterrupt, w))\<rparr>)
       (Execute_within_exception_trap (Callback (App_callback 1))) sample_world
       = Inl (KeyboardInterrupt, sample_world)"
  using Callback_deferred_and_trapped
      [where cb = "App_callback 1" and args = "[True, False]" and w = sample_world
         and h = "sample_host\<lparr>call := (\<lambda>cb w. Inr (w\<lparr>pending := []\<rparr>))\<rparr>"
         and ?w1.0 = "Callback_call (Callback (App_callback 1)) [True, False] sample_world"
         and ?w2.0 = sample_world]
    Callback_deferred_and_trapped
      [where cb = "App_callback 1" and h = sample_host and ?w1.0 = sample_world
         and e = "PyException ''callback failed''" and ?w2.0 = sample_world]
    Callback_deferred_and_trapped
      [where cb = "App_callback 1" and h = "sample_host\<lparr>call := (\<lambda>cb w. Inl (KeyboardInterrupt, w))\<rparr>"
         and ?w1.0 = sample_world and e = KeyboardInterrupt and ?w2.0 = sample_world]
  by (simp add: sample_defs Callback_call_def)

section \<open>The generator emits the layout\<close>

lemma number_slots_append:
  "number_slots d m (xs @ ys) =
     number_slots d m xs
     @ number_slots (d + length (filter is_divider xs)) (m + length (filter (\<lambda>s. \<not> is_divider s) xs)) ys"
  by (induction d m xs rule: number_slots.induct) simp_all

lemma emits_refl: "menu_def g \<noteq> None \<Longrightarrow> emits g [] g"
  by (auto simp: emits_def outline_def)

lemma emits_trans:
  assumes "emits g xs g1" and "emits g1 ys g2"
  shows "emits g (xs @ ys) g2"
proof -
  from assms(1) obtain md es where 1: "menu_def g = Some md" "menu_def g1 = Some (md @ es)"
    "outline es = number_slots (divider_id g) (menu_item_id g) xs"
    by (auto simp: emits_def)
  from assms(2) 1 obtain es' where 2: "menu_def g2 = Some ((md @ es) @ es')"
    "outline es' = number_slots (divider_id g1) (menu_item_id g1) ys"
    by (auto simp: emits_def)
  have "outline (es @ es') = number_slots (divider_id g) (menu_item_id g) (xs @ ys)"
    using 1 2 assms(1) by (simp add: number_slots_append outline_def emits_def)
  with 1 2 assms show ?thesis
    by (auto simp: emits_def)
qed

lemma emits_defined: "emits g xs g' \<Longrightarrow> menu_def g' \<noteq> None"
  by (auto simp: emits_def)

lemma describe_item_label: "describe_item st nm cb props = Inr d \<Longrightarrow> label d = nm"
  by (auto simp: describe_item_def Let_def split: option.splits sum.splits)

lemma add_menu_item_emits:
  "add_menu_item st nm parent cb props g = Inr g' \<Longrightarrow> emits g [Item_in parent nm] g'"
  by (auto simp: add_menu_item_def md_append_def emits_def outline_def Let_def describe_item_label
      split: sum.splits option.splits)

lemma add_divider_emits:
  "add_divider parent g = Inr g' \<Longrightarrow> emits g [Divider_in parent] g'"
  by (auto simp: add_divider_def md_append_def emits_def outline_def Let_def split: option.splits)

lemma add_command_to_menu_emits:
  "add_command_to_menu st cmd menu g = Inr g' \<Longrightarrow> emits g [Item_in menu (name cmd)] g'"
  by (simp add: add_command_to_menu_def add_menu_item_emits)

lemma add_context_menu_emits:
  assumes "add_context_menu st eng [] g = Inr (ctx_menu, g')"
  shows "ctx_menu = ''/'' @ ctx_str (engine_context eng)
         \<and> emits g ([Item_in ctx_menu ''Jump to Shotgun'']
              @ (if filesystem_locations (engine_context eng) \<noteq> [] then [Item_in ctx_menu ''Jump to File System''] else [])
              @ [Divider_in ctx_menu]) g'"
proof -
  let ?cm = "''/'' @ ctx_str (engine_context eng)"
  let ?r1 = "add_menu_item st ''Jump to Shotgun'' ?cm (Some Jump_to_sg) None g"
  let ?r2 = "\<lambda>g1. if filesystem_locations (engine_context eng) \<noteq> []
              then add_menu_item st ''Jump to File System'' ?cm (Some Jump_to_fs)
                     (Some (no_properties\<lparr>tooltip := Some ''my tooliotoop''\<rparr>)) g1
              else Inr g1"
  have unfolded: "add_context_menu st eng [] g =
     (case ?r1 of Inl x \<Rightarrow> Inl x
      | Inr g1 \<Rightarrow> (case ?r2 g1 of Inl x \<Rightarrow> Inl x
          | Inr g2 \<Rightarrow> (case add_divider ?cm g2 of Inl x \<Rightarrow> Inl x | Inr g3 \<Rightarrow> Inr (?cm, g3))))"
    unfolding add_context_menu_def add_sub_menu_def Let_def append_Nil ..
  obtain g1 where 1: "?r1 = Inr g1"
    using assms unfolding unfolded by (cases ?r1) simp_all
  obtain g2 where 2: "?r2 g1 = Inr g2"
    using assms unfolding unfolded 1 by (cases "?r2 g1") simp_all
  have 3: "add_divider ?cm g2 = Inr g'" and cm: "ctx_menu = ?cm"
    using assms unfolding unfolded 1 by (cases "add_divider ?cm g2"; simp add: 2)+
  have e1: "emits g [Item_in ?cm ''Jump to Shotgun''] g1"
    using 1 by (rule add_menu_item_emits)
  have e2: "emits g1 (if filesystem_locations (engine_context eng) \<noteq> [] then [Item_in ?cm ''Jump to File System''] else []) g2"
    using 2 emits_defined [OF e1] by (auto simp: add_menu_item_emits emits_refl split: if_splits)
  have e3: "emits g2 [Divider_in ?cm] g'"
    using 3 by (rule add_divider_emits)
  from emits_trans [OF e1 emits_trans [OF e2 e3]] cm show ?thesis
    by (cases "filesystem_locations (engine_context eng) = []") simp_all
qed

lemma favourite_matches_promote [simp]:
  "favourite_matches eng fav (promote eng favs cmd) = favourite_matches eng fav cmd"
  by (simp add: favourite_matches_def promote_def get_app_instance_name_def)

lemma favourite_matches_mark [simp]:
  "favourite_matches eng fav (cmd\<lparr>favourite := b\<rparr>) = favourite_matches eng fav cmd"
  by (simp add: favourite_matches_def get_app_instance_name_def)

lemma name_promote [simp]: "name (promote eng favs cmd) = name cmd"
  by (simp add: promote_def)

lemma get_type_promote [simp]: "get_type (promote eng favs cmd) = get_type cmd"
  by (simp add: promote_def get_type_def)

lemma app_key_promote [simp]: "app_key (promote eng favs cmd) = app_key cmd"
  by (simp add: promote_def app_key_def get_app_name_def)

lemma promote_Nil [simp]: "promote eng [] cmd = cmd"
  by (simp add: promote_def)

lemma promote_Cons: "promote eng favs (promote eng [fav] cmd) = promote eng (fav # favs) cmd"
  by (simp add: promote_def favourite_matches_def get_app_instance_name_def disj_assoc)

lemma scan_menu_items_emits:
  "scan_menu_items st eng fav cmds g = Inr (cmds', g') \<Longrightarrow> menu_def g \<noteq> None \<Longrightarrow>
     emits g (map (\<lambda>cmd. Item_in [] (name cmd)) (filter (favourite_matches eng fav) cmds)) g'
     \<and> cmds' = map (promote eng [fav]) cmds"
proof (induction cmds arbitrary: g cmds' g')
  case Nil
  then show ?case by (simp add: emits_refl)
next
  case (Cons cmd rest)
  show ?case
  proof (cases "favourite_matches eng fav cmd")
    case True
    with Cons.prems obtain g1 rest' where
      1: "add_command_to_menu st cmd [] g = Inr g1"
      and 2: "scan_menu_items st eng fav rest g1 = Inr (rest', g')"
      and 3: "cmds' = cmd\<lparr>favourite := True\<rparr> # rest'"
      by (auto simp: favourite_matches_def split: sum.splits)
    have e1: "emits g [Item_in [] (name cmd)] g1"
      using 1 by (rule add_command_to_menu_emits)
    from Cons.IH [OF 2 emits_defined [OF e1]] have
      e2: "emits g1 (map (\<lambda>cmd. Item_in [] (name cmd)) (filter (favourite_matches eng fav) rest)) g'"
      and r: "rest' = map (promote eng [fav]) rest" by simp_all
    from emits_trans [OF e1 e2] r 3 True show ?thesis
      by (simp add: promote_def)
  next
    case False
    with Cons.prems obtain rest' where
      2: "scan_menu_items st eng fav rest g = Inr (rest', g')" and 3: "cmds' = cmd # rest'"
      by (auto simp: favourite_matches_def split: sum.splits)
    from Cons.IH [OF 2 Cons.prems(2)] 3 False show ?thesis
      by (simp add: promote_def)
  qed
qed

lemma filter_matches_promoted:
  "map (\<lambda>cmd. Item_in [] (name cmd)) (filter (favourite_matches eng fav) (map (promote eng favs) cmds))
   = map (\<lambda>cmd. Item_in [] (name cmd)) (filter (favourite_matches eng fav) cmds)"
  by (induction cmds) simp_all

lemma add_favourites_emits:
  "add_favourites st eng favs cmds g = Inr (cmds', g') \<Longrightarrow> menu_def g \<noteq> None \<Longrightarrow>
     emits g (concat (map (\<lambda>fav. map (\<lambda>cmd. Item_in [] (name cmd)) (filter (favourite_matches eng fav) cmds)) favs)) g'
     \<and> cmds' = map (promote eng favs) cmds"
proof (induction favs arbitrary: cmds g cmds' g')
  case Nil
  then show ?case by (simp add: emits_refl)
next
  case (Cons fav favs)
  from Cons.prems obtain cmds1 g1 where
    1: "scan_menu_items st eng fav cmds g = Inr (cmds1, g1)"
    and 2: "add_favourites st eng favs cmds1 g1 = Inr (cmds', g')"
    by (auto split: sum.splits)
  from scan_menu_items_emits [OF 1 Cons.prems(2)] have
    e1: "emits g (map (\<lambda>cmd. Item_in [] (name cmd)) (filter (favourite_matches eng fav) cmds)) g1"
    and c1: "cmds1 = map (promote eng [fav]) cmds" by simp_all
  from Cons.IH [OF 2 emits_defined [OF e1]] have
    e2: "emits g1 (concat (map (\<lambda>fav. map (\<lambda>cmd. Item_in [] (name cmd)) (filter (favourite_matches eng fav) cmds1)) favs)) g'"
    and c2: "cmds' = map (promote eng favs) cmds1" by simp_all
  from emits_trans [OF e1 e2] c1 c2 show ?case
    by (simp add: filter_matches_promoted promote_Cons)
qed

lemma add_commands_emits:
  "add_commands st cmds menu g = Inr g' \<Longrightarrow> menu_def g \<noteq> None \<Longrightarrow>
     emits g (map (\<lambda>cmd. Item_in menu (name cmd)) cmds) g'"
proof (induction cmds arbitrary: g)
  case Nil
  then show ?case by (simp add: emits_refl)
next
  case (Cons cmd cmds)
  from Cons.prems obtain g1 where 1: "add_command_to_menu st cmd menu g = Inr g1"
    and 2: "add_commands st cmds menu g1 = Inr g'"
    by (auto split: sum.splits)
  have e1: "emits g [Item_in menu (name cmd)] g1"
    using 1 by (rule add_command_to_menu_emits)
  from emits_trans [OF e1 Cons.IH [OF 2 emits_defined [OF e1]]] show ?case by simp
qed

lemma separate_commands_emits:
  "separate_commands st cmds ctx_menu by_app g = Inr (by_app', g') \<Longrightarrow> menu_def g \<noteq> None \<Longrightarrow>
     emits g (map (\<lambda>cmd. Item_in ctx_menu (name cmd)) (filter (\<lambda>cmd. get_type cmd = ''context_menu'') cmds)) g'
     \<and> by_app' = foldl (\<lambda>d cmd. append_to_app (app_key cmd) cmd d) by_app
                    (filter (\<lambda>cmd. get_type cmd \<noteq> ''context_menu'') cmds)"
proof (induction cmds arbitrary: by_app g)
  case Nil
  then show ?case by (simp add: emits_refl)
next
  case (Cons cmd cmds)
  show ?case
  proof (cases "get_type cmd = ''context_menu''")
    case True
    with Cons.prems obtain g1 where 1: "add_command_to_menu st cmd ctx_menu g = Inr g1"
      and 2: "separate_commands st cmds ctx_menu by_app g1 = Inr (by_app', g')"
      by (auto split: sum.splits)
    have e1: "emits g [Item_in ctx_menu (name cmd)] g1"
      using 1 by (rule add_command_to_menu_emits)
    from Cons.IH [OF 2 emits_defined [OF e1]] emits_trans [OF e1] True show ?thesis
      by fastforce
  next
    case False
    with Cons.prems have
      2: "separate_commands st cmds ctx_menu (append_to_app (app_key cmd) cmd by_app) g = Inr (by_app', g')"
      by (simp add: app_key_def)
    from Cons.IH [OF 2 Cons.prems(2)] False show ?thesis by simp
  qed
qed

lemma add_apps_emits:
  "add_apps st by_app names g = Inr g' \<Longrightarrow> menu_def g \<noteq> None \<Longrightarrow>
     emits g (concat (map (app_slots by_app) names)) g'"
proof (induction names arbitrary: g)
  case Nil
  then show ?case by (simp add: emits_refl)
next
  case (Cons k names)
  from Cons.prems obtain cmds where m: "map_of by_app k = Some cmds"
    by (auto split: option.splits)
  have "\<exists>g1. emits g (app_slots by_app k) g1 \<and> add_apps st by_app names g1 = Inr g'"
  proof (cases "length cmds > 1")
    case True
    with Cons.prems m obtain g1 where
      1: "add_commands st (sort_key name cmds) (''/'' @ k) g = Inr g1"
      and 2: "add_apps st by_app names g1 = Inr g'"
      by (auto simp: add_sub_menu_def split: sum.splits)
    from add_commands_emits [OF 1 Cons.prems(2)] 2 m True show ?thesis
      by (auto simp: app_slots_def)
  next
    case False
    with Cons.prems m obtain cmd rest where c: "cmds = cmd # rest"
      by (cases cmds) auto
    show ?thesis
    proof (cases "favourite cmd")
      case True
      with Cons.prems m c False show ?thesis
        by (auto simp: app_slots_def intro!: exI [of _ g] emits_refl)
    next
      case nf: False
      with Cons.prems m c False obtain g1 where
        1: "add_command_to_menu st cmd [] g = Inr g1" and 2: "add_apps st by_app names g1 = Inr g'"
        by (auto split: sum.splits)
      from add_command_to_menu_emits [OF 1] 2 m c False nf show ?thesis
        by (auto simp: app_slots_def)
    qed
  qed
  then obtain g1 where e1: "emits g (app_slots by_app k) g1" and 2: "add_apps st by_app names g1 = Inr g'"
    by blast
  from emits_trans [OF e1 Cons.IH [OF 2 emits_defined [OF e1]]] show ?case by simp
qed

lemma add_app_menu_emits:
  assumes "add_app_menu st by_app g = Inr g'" and "menu_def g \<noteq> None"
  shows "emits g (concat (map (app_slots by_app) (sort (map fst by_app))) @ [Divider_in []]) g'"
proof -
  from assms obtain g1 where 1: "add_apps st by_app (sort (map fst by_app)) g = Inr g1"
    and 2: "add_divider [] g1 = Inr g'"
    by (auto simp: add_app_menu_def split: sum.splits)
  from emits_trans [OF add_apps_emits [OF 1 assms(2)] add_divider_emits [OF 2]] show ?thesis .
qed

lemma group_by_app_simps [simp]:
  "group_by_app d [] = d"
  "group_by_app d (cmd # cmds) = group_by_app (append_to_app (app_key cmd) cmd d) cmds"
  by (simp_all add: group_by_app_def)

lemma map_of_append_to_app:
  "map_of (append_to_app k c d) k' =
     (if k' = k then Some ((case map_of d k of None \<Rightarrow> [] | Some cs \<Rightarrow> cs) @ [c]) else map_of d k')"
  by (induction k c d rule: append_to_app.induct) auto

lemma keys_append_to_app:
  "map fst (append_to_app k c d) = (if k \<in> fst ` set d then map fst d else map fst d @ [k])"
  by (induction k c d rule: append_to_app.induct) (auto simp: image_iff)

lemma set_keys_append_to_app:
  "fst ` set (append_to_app k c d) = insert k (fst ` set d)"
  by (induction k c d rule: append_to_app.induct) auto

lemma map_of_group_by_app:
  "map_of (group_by_app d cmds) k =
     (if filter (\<lambda>c. app_key c = k) cmds = [] then map_of d k
      else Some ((case map_of d k of None \<Rightarrow> [] | Some cs \<Rightarrow> cs) @ filter (\<lambda>c. app_key c = k) cmds))"
  by (induction cmds arbitrary: d) (auto simp: map_of_append_to_app)

lemma keys_group_by_app:
  "distinct (map fst d) \<Longrightarrow>
     distinct (map fst (group_by_app d cmds))
     \<and> set (map fst (group_by_app d cmds)) = fst ` set d \<union> app_key ` set cmds"
proof (induction cmds arbitrary: d)
  case Nil
  then show ?case by simp
next
  case (Cons c cmds)
  have "distinct (map fst (append_to_app (app_key c) c d))"
    using Cons.prems by (auto simp: keys_append_to_app)
  from Cons.IH [OF this] show ?case
    by (simp add: set_keys_append_to_app)
qed

lemma sorted_keys_group_by_app:
  "sort (map fst (group_by_app [] cmds)) = sort (remdups (map app_key cmds))"
proof (rule sorted_distinct_set_unique)
  show "sorted (sort (map fst (group_by_app [] cmds)))" by simp
  show "distinct (sort (map fst (group_by_app [] cmds)))"
    using keys_group_by_app [of "[]" cmds] by simp
  show "sorted (sort (remdups (map app_key cmds)))" by simp
  show "distinct (sort (remdups (map app_key cmds)))" by simp
  show "set (sort (map fst (group_by_app [] cmds))) = set (sort (remdups (map app_key cmds)))"
    using keys_group_by_app [of "[]" cmds] by simp
qed

lemma app_slots_group:
  assumes "k \<in> app_key ` set cmds" and "sorted (map name cmds)"
  shows "app_slots (group_by_app [] cmds) k = group_layout k (filter (\<lambda>c. app_key c = k) cmds)"
proof -
  let ?grp = "filter (\<lambda>c. app_key c = k) cmds"
  from assms(1) have ne: "?grp \<noteq> []"
    by (auto simp: filter_empty_conv)
  then have m: "map_of (group_by_app [] cmds) k = Some ?grp"
    by (simp add: map_of_group_by_app)
  have "sorted (map name ?grp)"
    using assms(2) by (rule sorted_filter)
  then have s: "sort_key name ?grp = ?grp"
    by (rule sort_key_id_if_sorted)
  show ?thesis
  proof (cases "length ?grp > 1")
    case True
    then show ?thesis by (simp add: app_slots_def m s group_layout_def)
  next
    case False
    with ne obtain c where "?grp = [c]"
      by (cases ?grp) auto
    with False show ?thesis by (simp add: app_slots_def m group_layout_def)
  qed
qed

lemma sorted_names: "sorted (map name (sorted_commands eng))"
  by (simp add: sorted_commands_def)

lemma map_name_promote: "map name (map (promote eng favs) cmds) = map name cmds"
  by (induction cmds) simp_all

lemma filter_type_promote:
  "map f (filter (\<lambda>cmd. get_type cmd = t) (map (promote eng favs) cmds))
   = map (f \<circ> promote eng favs) (filter (\<lambda>cmd. get_type cmd = t) cmds)"
  by (induction cmds) simp_all

lemma filter_not_type_promote:
  "filter (\<lambda>cmd. get_type cmd \<noteq> t) (map (promote eng favs) cmds)
   = map (promote eng favs) (filter (\<lambda>cmd. get_type cmd \<noteq> t) cmds)"
  by (induction cmds) simp_all

lemma create_menu_emits:
  assumes "create_menu st eng False g0 = Inr g"
  shows "emits (g0\<lparr>menu_def := Some []\<rparr>) (menu_layout eng) g"
proof -
  let ?g = "g0\<lparr>menu_def := Some []\<rparr>"
  let ?favs = "menu_favourites eng"
  let ?cm = "''/'' @ ctx_str (engine_context eng)"
  let ?marked = "map (promote eng ?favs) (sorted_commands eng)"
  let ?rest = "filter (\<lambda>cmd. get_type cmd \<noteq> ''context_menu'') ?marked"
  have unfolded: "create_menu st eng False g0 =
     (case add_context_menu st eng [] ?g of Inl x \<Rightarrow> Inl x
      | Inr (context_menu, g1) \<Rightarrow>
     (case add_divider [] g1 of Inl x \<Rightarrow> Inl x
      | Inr g2 \<Rightarrow>
     (case add_favourites st eng ?favs (sorted_commands eng) g2 of Inl x \<Rightarrow> Inl x
      | Inr (menu_items', g3) \<Rightarrow>
     (case (if ?favs \<noteq> [] then add_divider [] g3 else Inr g3) of Inl x \<Rightarrow> Inl x
      | Inr g4 \<Rightarrow>
     (case separate_commands st menu_items' context_menu [] g4 of Inl x \<Rightarrow> Inl x
      | Inr (commands_by_app, g5) \<Rightarrow> add_app_menu st commands_by_app g5)))))"
    unfolding create_menu_def sorted_commands_def Let_def length_greater_0_conv by simp
  obtain context_menu g1 where 1: "add_context_menu st eng [] ?g = Inr (context_menu, g1)"
    using assms unfolding unfolded by (cases "add_context_menu st eng [] ?g") auto
  obtain g2 where 2: "add_divider [] g1 = Inr g2"
    using assms unfolding unfolded 1 by (cases "add_divider [] g1") auto
  obtain menu_items' g3 where 3: "add_favourites st eng ?favs (sorted_commands eng) g2 = Inr (menu_items', g3)"
    using assms unfolding unfolded 1 by (cases "add_favourites st eng ?favs (sorted_commands eng) g2") (auto simp: 2)
  obtain g4 where 4: "(if ?favs \<noteq> [] then add_divider [] g3 else Inr g3) = Inr g4"
    using assms unfolding unfolded 1
    by (cases "if ?favs \<noteq> [] then add_divider [] g3 else Inr g3") (auto simp: 2 3)
  obtain commands_by_app g5 where 5: "separate_commands st menu_items' context_menu [] g4 = Inr (commands_by_app, g5)"
    using assms unfolding unfolded 1
    by (cases "separate_commands st menu_items' context_menu [] g4") (auto simp: 2 3 4)
  have 6: "add_app_menu st commands_by_app g5 = Inr g"
    using assms unfolding unfolded 1 by (simp add: 2 3 4 5)
  have cm: "context_menu = ?cm"
    using add_context_menu_emits [OF 1] by (rule conjunct1)
  have e1: "emits ?g ([Item_in ?cm ''Jump to Shotgun'']
              @ (if filesystem_locations (engine_context eng) \<noteq> [] then [Item_in ?cm ''Jump to File System''] else [])
              @ [Divider_in ?cm]) g1"
    using add_context_menu_emits [OF 1, THEN conjunct2] unfolding cm .
  have e2: "emits g1 [Divider_in []] g2"
    using 2 by (rule add_divider_emits)
  have e12: "emits ?g (context_layout eng) g2"
    using emits_trans [OF e1 e2]
    by (cases "filesystem_locations (engine_context eng) = []") (simp_all add: context_layout_def Let_def)
  from add_favourites_emits [OF 3 emits_defined [OF e2]] have
    e3: "emits g2 (promoted_layout eng) g3" and items: "menu_items' = ?marked"
    by (simp_all add: promoted_layout_def)
  have e4: "emits g3 (if ?favs = [] then [] else [Divider_in []]) g4"
    using 4 emits_defined [OF e3] by (auto simp: add_divider_emits emits_refl split: if_splits)
  from separate_commands_emits [OF 5 emits_defined [OF e4]] have
    e5: "emits g4 (map (\<lambda>cmd. Item_in ?cm (name cmd)) (filter (\<lambda>cmd. get_type cmd = ''context_menu'') ?marked)) g5"
    and by_app: "commands_by_app = group_by_app [] ?rest"
    by (simp_all add: cm items group_by_app_def)
  have e6: "emits g5 (concat (map (app_slots commands_by_app) (sort (map fst commands_by_app))) @ [Divider_in []]) g"
    using 6 emits_defined [OF e5] by (rule add_app_menu_emits)
  have ctx_cmds: "map (\<lambda>cmd. Item_in ?cm (name cmd)) (filter (\<lambda>cmd. get_type cmd = ''context_menu'') ?marked)
      = map (\<lambda>cmd. Item_in ?cm (name cmd)) (filter (\<lambda>cmd. get_type cmd = ''context_menu'') (sorted_commands eng))"
    by (simp add: filter_type_promote comp_def)
  have keys: "sort (map fst commands_by_app)
      = sort (remdups (map app_key (filter (\<lambda>cmd. get_type cmd \<noteq> ''context_menu'') (sorted_commands eng))))"
    by (simp add: by_app sorted_keys_group_by_app filter_not_type_promote comp_def)
  have "sorted (map name ?marked)"
    using sorted_names [of eng] by (simp only: map_name_promote)
  then have sorted_rest: "sorted (map name ?rest)"
    by (rule sorted_filter)
  let ?keys = "sort (remdups (map app_key (filter (\<lambda>cmd. get_type cmd \<noteq> ''context_menu'') (sorted_commands eng))))"
  have groups: "map (app_slots commands_by_app) ?keys = map (\<lambda>k. group_layout k (app_group eng k)) ?keys"
  proof (rule map_cong [OF refl])
    fix k assume "k \<in> set ?keys"
    then have "k \<in> set (sort (map fst commands_by_app))"
      by (simp only: keys)
    then have "k \<in> app_key ` set ?rest"
      using keys_group_by_app [of "[]" ?rest] by (simp add: by_app)
    from app_slots_group [OF this sorted_rest]
    show "app_slots commands_by_app k = group_layout k (app_group eng k)"
      by (simp add: by_app app_group_def conj_commute)
  qed
  have "remaining_layout eng =
      map (\<lambda>cmd. Item_in ?cm (name cmd)) (filter (\<lambda>cmd. get_type cmd = ''context_menu'') ?marked)
      @ concat (map (app_slots commands_by_app) (sort (map fst commands_by_app))) @ [Divider_in []]"
    unfolding remaining_layout_def ctx_cmds keys groups ..
  with emits_trans [OF e5 e6] have e56: "emits g4 (remaining_layout eng) g"
    by simp
  from emits_trans [OF e12 emits_trans [OF e3 emits_trans [OF e4 e56]]] show ?thesis
    by (simp add: menu_layout_def)
qed

lemma create_menu_outline:
  assumes "create_menu st eng False g0 = Inr g"
  shows "map_option outline (menu_def g)
           = Some (number_slots (divider_id g0) (menu_item_id g0) (menu_layout eng))"
  using create_menu_emits [OF assms] by (auto simp: emits_def)














lemma scan_menu_items_unmatched:
  "\<not> list_ex (favourite_matches eng fav) cmds \<Longrightarrow> scan_menu_items st eng fav cmds g = Inr (cmds, g)"
  by (induction cmds) (auto simp: favourite_matches_def)

section \<open>Rebuilding the menu\<close>

text \<open>The build reads four attributes of the engine and nothing else.\<close>

lemma get_app_instance_name_cong:
  "apps e = apps e' \<Longrightarrow> get_app_instance_name e cmd = get_app_instance_name e' cmd"
  by (simp add: get_app_instance_name_def split: option.splits)

lemma scan_menu_items_cong:
  "apps e = apps e' \<Longrightarrow> scan_menu_items st e fav cmds g = scan_menu_items st e' fav cmds g"
  by (induction cmds arbitrary: g)
     (simp_all add: get_app_instance_name_cong [of e e'] split: sum.splits prod.splits)

lemma add_favourites_cong:
  "apps e = apps e' \<Longrightarrow> add_favourites st e favs cmds g = add_favourites st e' favs cmds g"
  by (induction favs arbitrary: cmds g)
     (simp_all add: scan_menu_items_cong [of e e'] split: sum.splits prod.splits)

lemma add_context_menu_cong:
  "engine_context e = engine_context e' \<Longrightarrow> add_context_menu st e parent g = add_context_menu st e' parent g"
  by (simp add: add_context_menu_def)

lemma create_menu_cong:
  assumes "commands e = commands e'" and "apps e = apps e'"
    and "engine_context e = engine_context e'" and "menu_favourites e = menu_favourites e'"
  shows "create_menu st e disabled g = create_menu st e' disabled g"
  using assms
  by (simp add: create_menu_def add_context_menu_cong [of e e'] add_favourites_cong [of e e'] Let_def
      split: sum.splits prod.splits)

text \<open>
  The build reads the state through the callbacks of the registered commands only:
  in two states in which these give the same, every method of the generator does
  the same.
\<close>

lemma same_description_init:
  "callbacks_agree st st' cmd_details \<Longrightarrow> same_description st st' (AppCommand_init cmd_name cmd_details)"
  by (auto simp: callbacks_agree_def same_description_def AppCommand_init_def describe_item_def
      no_properties_def Let_def split: option.splits sum.splits)

lemma same_description_sorted:
  assumes "list_all (\<lambda>(cmd_name, cmd_details). callbacks_agree st st' cmd_details) (commands eng)"
  shows "list_all (same_description st st') (sorted_commands eng)"
  using assms by (auto simp: sorted_commands_def list_all_iff same_description_init)

lemma same_description_mark [simp]:
  "same_description st st' (cmd\<lparr>favourite := b\<rparr>) = same_description st st' cmd"
  by (simp add: same_description_def)

lemma add_command_to_menu_agree:
  "same_description st st' cmd \<Longrightarrow> add_command_to_menu st cmd menu g = add_command_to_menu st' cmd menu g"
  by (simp add: add_command_to_menu_def add_menu_item_def same_description_def)

lemma add_context_menu_agree:
  "add_context_menu st eng parent g = add_context_menu st' eng parent g"
proof -
  have 1: "add_menu_item st nm menu cb None g1 = add_menu_item st' nm menu cb None g1" for nm menu cb g1
    by (simp add: add_menu_item_def describe_item_def)
  have 2: "add_menu_item st nm menu cb (Some (no_properties\<lparr>tooltip := t\<rparr>)) g1
      = add_menu_item st' nm menu cb (Some (no_properties\<lparr>tooltip := t\<rparr>)) g1" for nm menu cb t g1
    by (simp add: add_menu_item_def describe_item_def no_properties_def)
  show ?thesis
    unfolding add_context_menu_def Let_def 1 2 ..
qed

lemma scan_menu_items_agree:
  "list_all (same_description st st') cmds \<Longrightarrow>
     scan_menu_items st eng fav cmds g = scan_menu_items st' eng fav cmds g"
  by (induction cmds arbitrary: g)
     (simp_all add: add_command_to_menu_agree [of st st'] split: sum.splits prod.splits)

lemma scan_menu_items_keeps:
  "scan_menu_items st eng fav cmds g = Inr (cmds', g') \<Longrightarrow> list_all (same_description a b) cmds \<Longrightarrow>
     list_all (same_description a b) cmds'"
  by (induction cmds arbitrary: g cmds' g') (auto split: sum.splits if_splits)

lemma add_favourites_agree:
  "list_all (same_description st st') cmds \<Longrightarrow>
     add_favourites st eng favs cmds g = add_favourites st' eng favs cmds g"
proof (induction favs arbitrary: cmds g)
  case Nil
  then show ?case by simp
next
  case (Cons fav favs)
  show ?case
  proof (cases "scan_menu_items st' eng fav cmds g")
    case (Inl x)
    with Cons.prems show ?thesis by (simp add: scan_menu_items_agree [of st st'])
  next
    case (Inr r)
    obtain cmds1 g1 where r: "r = (cmds1, g1)" by (cases r)
    from scan_menu_items_keeps [OF Inr [unfolded r] Cons.prems]
    have "add_favourites st eng favs cmds1 g1 = add_favourites st' eng favs cmds1 g1"
      by (rule Cons.IH)
    with Inr r Cons.prems show ?thesis by (simp add: scan_menu_items_agree [of st st'])
  qed
qed

lemma add_favourites_keeps:
  "add_favourites st eng favs cmds g = Inr (cmds', g') \<Longrightarrow> list_all (same_description a b) cmds \<Longrightarrow>
     list_all (same_description a b) cmds'"
proof (induction favs arbitrary: cmds g)
  case Nil
  then show ?case by simp
next
  case (Cons fav favs)
  from Cons.prems(1) obtain cmds1 g1 where
    1: "scan_menu_items st eng fav cmds g = Inr (cmds1, g1)"
    and 2: "add_favourites st eng favs cmds1 g1 = Inr (cmds', g')"
    by (auto split: sum.splits)
  from Cons.IH [OF 2 scan_menu_items_keeps [OF 1 Cons.prems(2)]] show ?case .
qed

lemma add_commands_agree:
  "list_all (same_description st st') cmds \<Longrightarrow> add_commands st cmds menu g = add_commands st' cmds menu g"
  by (induction cmds arbitrary: g)
     (simp_all add: add_command_to_menu_agree [of st st'] split: sum.splits)

lemma separate_commands_agree:
  "list_all (same_description st st') cmds \<Longrightarrow>
     separate_commands st cmds ctx_menu by_app g = separate_commands st' cmds ctx_menu by_app g"
  by (induction cmds arbitrary: by_app g)
     (simp_all add: add_command_to_menu_agree [of st st'] split: sum.splits)

lemma append_to_app_keeps:
  "P cmd \<Longrightarrow> list_all (\<lambda>(k, cmds). list_all P cmds) by_app \<Longrightarrow>
     list_all (\<lambda>(k, cmds). list_all P cmds) (append_to_app app_name cmd by_app)"
  by (induction app_name cmd by_app rule: append_to_app.induct) auto

lemma separate_commands_keeps:
  "separate_commands st cmds ctx_menu by_app g = Inr (by_app', g') \<Longrightarrow> list_all P cmds \<Longrightarrow>
     list_all (\<lambda>(k, cmds). list_all P cmds) by_app \<Longrightarrow>
     list_all (\<lambda>(k, cmds). list_all P cmds) by_app'"
  by (induction cmds arbitrary: by_app g)
     (auto simp: append_to_app_keeps split: sum.splits if_splits)

lemma add_apps_agree:
  assumes "list_all (\<lambda>(k, cmds). list_all (same_description st st') cmds) by_app"
  shows "add_apps st by_app names g = add_apps st' by_app names g"
proof (induction names arbitrary: g)
  case Nil
  show ?case by simp
next
  case (Cons k names)
  show ?case
  proof (cases "map_of by_app k")
    case None
    then show ?thesis by simp
  next
    case (Some cmds)
    then have "(k, cmds) \<in> set by_app" by (rule map_of_SomeD)
    with assms have all: "list_all (same_description st st') cmds"
      by (auto simp: list_all_iff)
    then have sorted: "list_all (same_description st st') (sort_key name cmds)"
      by (simp add: list_all_iff)
    show ?thesis
    proof (cases cmds)
      case Nil
      with Some show ?thesis by simp
    next
      case (Cons cmd_obj rest)
      with all have "same_description st st' cmd_obj" by simp
      with Some Cons Cons.IH sorted show ?thesis
        by (simp add: add_commands_agree [of st st'] add_command_to_menu_agree [of st st']
            split: sum.splits)
    qed
  qed
qed

lemma add_app_menu_agree:
  "list_all (\<lambda>(k, cmds). list_all (same_description st st') cmds) by_app \<Longrightarrow>
     add_app_menu st by_app g = add_app_menu st' by_app g"
  by (simp add: add_app_menu_def add_apps_agree [of st st'])

lemma create_menu_unfolded:
  "create_menu st eng False g0 =
     (case add_context_menu st eng [] (g0\<lparr>menu_def := Some []\<rparr>) of Inl x \<Rightarrow> Inl x
      | Inr (context_menu, g1) \<Rightarrow>
     (case add_divider [] g1 of Inl x \<Rightarrow> Inl x
      | Inr g2 \<Rightarrow>
     (case add_favourites st eng (menu_favourites eng) (sorted_commands eng) g2 of Inl x \<Rightarrow> Inl x
      | Inr (menu_items', g3) \<Rightarrow>
     (case (if menu_favourites eng \<noteq> [] then add_divider [] g3 else Inr g3) of Inl x \<Rightarrow> Inl x
      | Inr g4 \<Rightarrow>
     (case separate_commands st menu_items' context_menu [] g4 of Inl x \<Rightarrow> Inl x
      | Inr (commands_by_app, g5) \<Rightarrow> add_app_menu st commands_by_app g5)))))"
  unfolding create_menu_def sorted_commands_def Let_def length_greater_0_conv by simp

lemma create_menu_agree:
  assumes "list_all (\<lambda>(cmd_name, cmd_details). callbacks_agree st st' cmd_details) (commands eng)"
  shows "create_menu st eng disabled g0 = create_menu st' eng disabled g0"
proof (cases disabled)
  case True
  then show ?thesis by (simp add: create_menu_def)
next
  case False
  let ?g = "g0\<lparr>menu_def := Some []\<rparr>"
  have sorted: "list_all (same_description st st') (sorted_commands eng)"
    using assms by (rule same_description_sorted)
  have "create_menu st eng False g0 = create_menu st' eng False g0"
  proof (cases "add_context_menu st' eng [] ?g")
    case (Inl x)
    then show ?thesis
      by (simp add: create_menu_unfolded add_context_menu_agree [of st _ _ _ st'])
  next
    case (Inr r1)
    obtain context_menu g1 where r1: "r1 = (context_menu, g1)" by (cases r1)
    note 1 = Inr [unfolded r1]
    show ?thesis
    proof (cases "add_divider [] g1")
      case (Inl x)
      with 1 show ?thesis
        by (simp add: create_menu_unfolded add_context_menu_agree [of st _ _ _ st'])
    next
      case (Inr g2)
      note 2 = this
      show ?thesis
      proof (cases "add_favourites st' eng (menu_favourites eng) (sorted_commands eng) g2")
        case (Inl x)
        with 1 2 sorted show ?thesis
          by (simp add: create_menu_unfolded add_context_menu_agree [of st _ _ _ st']
              add_favourites_agree [of st st'])
      next
        case (Inr r3)
        obtain menu_items' g3 where r3: "r3 = (menu_items', g3)" by (cases r3)
        note 3 = Inr [unfolded r3]
        have items: "list_all (same_description st st') menu_items'"
          using 3 sorted by (rule add_favourites_keeps)
        show ?thesis
        proof (cases "if menu_favourites eng \<noteq> [] then add_divider [] g3 else Inr g3")
          case (Inl x)
          with 1 2 3 sorted show ?thesis
            by (simp add: create_menu_unfolded add_context_menu_agree [of st _ _ _ st']
                add_favourites_agree [of st st'])
        next
          case (Inr g4)
          note 4 = this
          show ?thesis
          proof (cases "separate_commands st' menu_items' context_menu [] g4")
            case (Inl x)
            with 1 2 3 4 sorted items show ?thesis
              by (simp add: create_menu_unfolded add_context_menu_agree [of st _ _ _ st']
                  add_favourites_agree [of st st'] separate_commands_agree [of st st'])
          next
            case (Inr r5)
            obtain commands_by_app g5 where r5: "r5 = (commands_by_app, g5)" by (cases r5)
            note 5 = Inr [unfolded r5]
            have "list_all (\<lambda>(k, cmds). list_all (same_description st st') cmds) commands_by_app"
              using 5 items by (rule separate_commands_keeps) simp
            with 1 2 3 4 5 sorted items show ?thesis
              by (simp add: create_menu_unfolded add_context_menu_agree [of st _ _ _ st']
                  add_favourites_agree [of st st'] separate_commands_agree [of st st']
                  add_app_menu_agree [of st st'])
          qed
        qed
      qed
    qed
  qed
  with False show ?thesis by simp
qed

lemma create_shotgun_menu_again:
  assumes "create_shotgun_menu disabled w = Inr (r, w1)"
    and "list_all (\<lambda>(cmd_name, cmd_details). callbacks_agree (app_state w) st' cmd_details) (commands (engine w))"
  shows "\<exists>w2. create_shotgun_menu disabled (w1\<lparr>app_state := st'\<rparr>) = Inr (r, w2)
           \<and> map_option get_menu_definition (menu_generator (engine w2))
             = map_option get_menu_definition (menu_generator (engine w1))"
proof (cases "can_create_menu (script (engine w))")
  case False
  with assms(1) show ?thesis
    by (auto simp: create_shotgun_menu_def has_ui_def is_batch_mode_def write_log_def Let_def)
next
  case True
  define e2 where "e2 = (engine w)\<lparr>creating_menu := True,
     menu_generator := Some (MenuGenerator_init (engine_menu_name (engine w)))\<rparr>"
  from assms(1) True obtain g' where
    built: "create_menu (app_state w) e2 disabled (MenuGenerator_init (engine_menu_name (engine w))) = Inr g'"
    and w1: "w1 = (write_log (Debug ''Starting active doc timer...'')
               ((write_log (Debug ''Creating shotgun menu...'') w)
                  \<lparr>engine := e2\<lparr>menu_generator := Some g', creating_menu := False\<rparr>\<rparr>))
               \<lparr>engine := e2\<lparr>menu_generator := Some g', creating_menu := False, active_doc_timer := Some 1000\<rparr>\<rparr>"
    and r: "r = True"
    by (auto simp: create_shotgun_menu_def has_ui_def is_batch_mode_def write_log_def Let_def e2_def
        split: sum.splits)
  define e2' where "e2' = (engine w1)\<lparr>creating_menu := True,
     menu_generator := Some (MenuGenerator_init (engine_menu_name (engine w1)))\<rparr>"
  have "create_menu st' e2' disabled (MenuGenerator_init (engine_menu_name (engine w1)))
        = create_menu st' e2 disabled (MenuGenerator_init (engine_menu_name (engine w)))"
    using create_menu_cong [of e2' e2 st' disabled "MenuGenerator_init (engine_menu_name (engine w))"]
    by (simp add: e2'_def e2_def w1 write_log_def)
  also have "\<dots> = create_menu (app_state w) e2 disabled (MenuGenerator_init (engine_menu_name (engine w)))"
    using assms(2) by (intro create_menu_agree [symmetric]) (simp add: e2_def)
  finally have again: "create_menu st' e2' disabled (MenuGenerator_init (engine_menu_name (engine w1))) = Inr g'"
    using built by simp
  have can: "can_create_menu (script (engine w1))"
    using True by (simp add: w1 e2_def write_log_def)
  show ?thesis
    using again can r
    by (simp add: create_shotgun_menu_def has_ui_def is_batch_mode_def write_log_def Let_def e2'_def
        w1 e2_def)
qed

text \<open>
  Numbering the same slots from other counters gives other paths: the decimal
  rendering of a counter determines it.
\<close>

lemma str_nat_not_Nil: "str_nat n \<noteq> []"
  by (subst str_nat.simps) simp

lemma digit_inj:
  "i < 10 \<Longrightarrow> j < 10 \<Longrightarrow> ''0123456789'' ! i = ''0123456789'' ! j \<Longrightarrow> i = j"
  using nth_eq_iff_index_eq [of "''0123456789''" i j] by simp

lemma str_nat_inj: "str_nat m = str_nat n \<Longrightarrow> m = n"
proof (induction m arbitrary: n rule: str_nat.induct)
  case (1 m)
  have single: "length (str_nat k) = 1 \<longleftrightarrow> k < 10" for k
    using str_nat_not_Nil [of "k div 10"] by (subst str_nat.simps) (auto simp: Suc_le_eq)
  show ?case
  proof (cases "m < 10")
    case True
    with single [of m] "1.prems" single [of n] have n: "n < 10" by simp
    from True n "1.prems" have "''0123456789'' ! m = ''0123456789'' ! n"
      by (simp add: str_nat.simps)
    with True n show ?thesis by (rule digit_inj)
  next
    case False
    with single [of m] "1.prems" single [of n] have n: "\<not> n < 10" by simp
    from False n "1.prems" have eq: "str_nat (m div 10) = str_nat (n div 10)"
      and digit: "''0123456789'' ! (m mod 10) = ''0123456789'' ! (n mod 10)"
      by (simp_all add: str_nat.simps [of m] str_nat.simps [of n])
    from "1.IH" [OF False eq] have "m div 10 = n div 10" .
    moreover from digit have "m mod 10 = n mod 10"
      by (intro digit_inj) simp_all
    ultimately show ?thesis
      by (metis div_mult_mod_eq)
  qed
qed

lemma length_number_slots: "length (number_slots d m slots) = length slots"
  by (induction d m slots rule: number_slots.induct) simp_all

lemma number_slots_renumbered:
  "d \<noteq> d' \<Longrightarrow> m \<noteq> m' \<Longrightarrow>
     list_all2 (\<lambda>(path1, label1) (path2, label2). path1 \<noteq> path2 \<and> label1 = label2)
       (number_slots d m slots) (number_slots d' m' slots)"
proof (induction slots arbitrary: d m d' m')
  case Nil
  show ?case by simp
next
  case (Cons s slots)
  then show ?case
    by (cases s) (auto dest: str_nat_inj)
qed

lemma create_menu_renumbers:
  assumes "create_menu st eng False g0 = Inr g1" and "create_menu st' eng False g1 = Inr g2"
  shows "\<exists>md1 md2. menu_def g1 = Some md1 \<and> menu_def g2 = Some md2 \<and> md1 \<noteq> []
           \<and> list_all2 (\<lambda>(path1, label1) (path2, label2). path1 \<noteq> path2 \<and> label1 = label2)
               (outline md1) (outline md2)"
proof -
  let ?layout = "menu_layout eng"
  from create_menu_emits [OF assms(1)] obtain md1 where
    md1: "menu_def g1 = Some md1"
    and o1: "outline md1 = number_slots (divider_id g0) (menu_item_id g0) ?layout"
    and d1: "divider_id g1 = divider_id g0 + length (filter is_divider ?layout)"
    and m1: "menu_item_id g1 = menu_item_id g0 + length (filter (\<lambda>s. \<not> is_divider s) ?layout)"
    by (auto simp: emits_def)
  from create_menu_emits [OF assms(2)] obtain md2 where
    md2: "menu_def g2 = Some md2"
    and o2: "outline md2 = number_slots (divider_id g1) (menu_item_id g1) ?layout"
    by (auto simp: emits_def)
  have dividers: "0 < length (filter is_divider ?layout)"
    and items: "0 < length (filter (\<lambda>s. \<not> is_divider s) ?layout)"
    by (simp_all add: menu_layout_def context_layout_def Let_def)
  have "?layout \<noteq> []"
    by (simp add: menu_layout_def context_layout_def Let_def)
  moreover have "length md1 = length ?layout"
    using arg_cong [OF o1, of length] by (simp add: outline_def length_number_slots)
  ultimately have "md1 \<noteq> []"
    by auto
  moreover have "list_all2 (\<lambda>(path1, label1) (path2, label2). path1 \<noteq> path2 \<and> label1 = label2)
      (outline md1) (outline md2)"
    unfolding o1 o2 using dividers items by (intro number_slots_renumbered) (simp_all add: d1 m1)
  ultimately show ?thesis
    using md1 md2 by blast
qed

text \<open>
  C4, as the claim states it, fails: a second \<^verbatim>\<open>create_menu\<close> on the same generator
  resets the definition but not the two counters, so the paths of the second build
  carry other numbers than those of the first. In the scenario of the three
  commands the first build ends with \<^verbatim>\<open>/divider5\<close> and the second one with
  \<^verbatim>\<open>/divider8\<close>.
\<close>

theorem create_menu_again_paths_differ:
  "map_sum fst (map_option (map fst) \<circ> menu_def)
     (create_menu 0 (scenario_engine scenario_registry [\<lparr>app_instance = ''AppB'', fav_name = ''Render''\<rparr>] sample_context)
        False (MenuGenerator_init ''Shotgun''))
   = Inr (Some [''/Shot 010/Jump to Shotgun2'', ''/Shot 010/divider2'', ''/divider3'', ''/Render3'',
        ''/divider4'', ''/AppA/Open4'', ''/AppA/Save5'', ''/divider5''])
   \<and> map_sum fst (map_option (map fst) \<circ> menu_def)
     (create_menu_again 0 (scenario_engine scenario_registry [\<lparr>app_instance = ''AppB'', fav_name = ''Render''\<rparr>] sample_context)
        False (MenuGenerator_init ''Shotgun''))
   = Inr (Some [''/Shot 010/Jump to Shotgun6'', ''/Shot 010/divider6'', ''/divider7'', ''/Render7'',
        ''/divider8'', ''/AppA/Open8'', ''/AppA/Save9'', ''/divider9''])"
  by (simp add: create_menu_again_def menu_defs scenario_defs sample_context_def str_nat.simps Let_def)

text \<open>
  C4, amended. Two builds that start from generators in the same state, in two
  states in which the \<^verbatim>\<open>enable_callback\<close> and the \<^verbatim>\<open>checkable_callback\<close> of every
  registered command give the same, do the same: they return the same generator
  with the same menu definition, or raise the same. \<^verbatim>\<open>create_shotgun_menu\<close>
  constructs a new generator for every build: when a call has returned, a second
  call on the engine it left, in such a state, returns the same value and the
  engine holds an identical menu definition. A second \<^verbatim>\<open>create_menu\<close> with
  \<^verbatim>\<open>disabled=False\<close> on the generator that a first build has left goes on from its
  counters: entry by entry the label is the same and the path is another one. With
  \<^verbatim>\<open>disabled=True\<close> the second build on the same generator gives what the first
  one gave.
\<close>

theorem rebuild_same_menu:
  "(list_all (\<lambda>(cmd_name, cmd_details). callbacks_agree st st' cmd_details) (commands eng) \<longrightarrow>
      create_menu st' eng disabled g = create_menu st eng disabled g)
   \<and> (list_all (\<lambda>(cmd_name, cmd_details). callbacks_agree (app_state w) st' cmd_details) (commands (engine w)) \<longrightarrow>
      create_shotgun_menu disabled w = Inr (r, w1) \<longrightarrow>
        (\<exists>w2. create_shotgun_menu disabled (w1\<lparr>app_state := st'\<rparr>) = Inr (r, w2)
           \<and> map_option get_menu_definition (menu_generator (engine w2))
             = map_option get_menu_definition (menu_generator (engine w1))))
   \<and> (create_menu st eng False g0 = Inr g1 \<longrightarrow> create_menu st' eng False g1 = Inr g2 \<longrightarrow>
        (\<exists>md1 md2. menu_def g1 = Some md1 \<and> menu_def g2 = Some md2 \<and> md1 \<noteq> []
           \<and> list_all2 (\<lambda>(path1, label1) (path2, label2). path1 \<noteq> path2 \<and> label1 = label2)
               (outline md1) (outline md2)))
   \<and> create_menu_again st eng True g0 = create_menu st eng True g0"
proof (intro conjI impI)
  assume "list_all (\<lambda>(cmd_name, cmd_details). callbacks_agree st st' cmd_details) (commands eng)"
  then show "create_menu st' eng disabled g = create_menu st eng disabled g"
    by (rule create_menu_agree [symmetric])
next
  assume "list_all (\<lambda>(cmd_name, cmd_details). callbacks_agree (app_state w) st' cmd_details) (commands (engine w))"
    and "create_shotgun_menu disabled w = Inr (r, w1)"
  then show "\<exists>w2. create_shotgun_menu disabled (w1\<lparr>app_state := st'\<rparr>) = Inr (r, w2)
           \<and> map_option get_menu_definition (menu_generator (engine w2))
             = map_option get_menu_definition (menu_generator (engine w1))"
    by (intro create_shotgun_menu_again)
next
  assume "create_menu st eng False g0 = Inr g1" and "create_menu st' eng False g1 = Inr g2"
  then show "\<exists>md1 md2. menu_def g1 = Some md1 \<and> menu_def g2 = Some md2 \<and> md1 \<noteq> []
           \<and> list_all2 (\<lambda>(path1, label1) (path2, label2). path1 \<noteq> path2 \<and> label1 = label2)
               (outline md1) (outline md2)"
    by (rule create_menu_renumbers)
next
  show "create_menu_again st eng True g0 = create_menu st eng True g0"
    by (simp add: create_menu_again_def create_menu_def md_append_def)
qed

theorem rebuild_same_menu_witness:
  "list_all (\<lambda>(cmd_name, cmd_details). callbacks_agree 0 1 cmd_details) polled_registry
   \<and> (\<exists>g. create_menu 0 (scenario_engine polled_registry [\<lparr>app_instance = ''AppB'', fav_name = ''Render''\<rparr>] sample_context)
             False (MenuGenerator_init ''Shotgun'') = Inr g
         \<and> create_menu 1 (scenario_engine polled_registry [\<lparr>app_instance = ''AppB'', fav_name = ''Render''\<rparr>] sample_context)
             False (MenuGenerator_init ''Shotgun'') = Inr g
         \<and> map_option (map fst) (menu_def g)
           = Some [''/Shot 010/Jump to Shotgun2'', ''/Shot 010/divider2'', ''/divider3'', ''/Render3'',
               ''/divider4'', ''/AppA/Open4'', ''/AppA/Save5'', ''/divider5''])
   \<and> (\<exists>w1 w2. create_shotgun_menu False polled_world = Inr (True, w1)
         \<and> create_shotgun_menu False (w1\<lparr>app_state := 1\<rparr>) = Inr (True, w2)
         \<and> map_option get_menu_definition (menu_generator (engine w2))
           = map_option get_menu_definition (menu_generator (engine w1))
         \<and> map_option (map_option length \<circ> get_menu_definition) (menu_generator (engine w1)) = Some (Some 8))
   \<and> (\<exists>g1 g2 md1 md2.
         create_menu 0 (scenario_engine polled_registry [\<lparr>app_instance = ''AppB'', fav_name = ''Render''\<rparr>] sample_context)
             False (MenuGenerator_init ''Shotgun'') = Inr g1
         \<and> create_menu 0 (scenario_engine polled_registry [\<lparr>app_instance = ''AppB'', fav_name = ''Render''\<rparr>] sample_context)
             False g1 = Inr g2
         \<and> menu_def g1 = Some md1 \<and> menu_def g2 = Some md2 \<and> md1 \<noteq> []
         \<and> list_all2 (\<lambda>(path1, label1) (path2, label2). path1 \<noteq> path2 \<and> label1 = label2)
             (outline md1) (outline md2))
   \<and> map_sum fst menu_def
       (create_menu 2 (scenario_engine polled_registry [\<lparr>app_instance = ''AppB'', fav_name = ''Render''\<rparr>] sample_context)
          False (MenuGenerator_init ''Shotgun''))
     \<noteq> map_sum fst menu_def
       (create_menu 0 (scenario_engine polled_registry [\<lparr>app_instance = ''AppB'', fav_name = ''Render''\<rparr>] sample_context)
          False (MenuGenerator_init ''Shotgun''))"
proof -
  let ?eng = "scenario_engine polled_registry [\<lparr>app_instance = ''AppB'', fav_name = ''Render''\<rparr>] sample_context"
  let ?init = "MenuGenerator_init ''Shotgun''"
  note t = rebuild_same_menu [where st = 0 and st' = 1 and disabled = False]
  have agree: "list_all (\<lambda>(cmd_name, cmd_details). callbacks_agree 0 1 cmd_details) polled_registry"
    by (simp add: polled_registry_def callbacks_agree_def scenario_command_def no_properties_def)
  obtain g1 where b1: "create_menu 0 ?eng False ?init = Inr g1"
    and paths: "map_option (map fst) (menu_def g1)
           = Some [''/Shot 010/Jump to Shotgun2'', ''/Shot 010/divider2'', ''/divider3'', ''/Render3'',
               ''/divider4'', ''/AppA/Open4'', ''/AppA/Save5'', ''/divider5'']"
    by (simp add: menu_defs scenario_engine_def polled_registry_def scenario_command_def scenario_app_def
        sample_context_def str_nat.simps Let_def)
  have same: "create_menu 1 ?eng False ?init = Inr g1"
    using t [where eng = ?eng and g = ?init] agree b1 by (simp add: scenario_engine_def)
  have registry: "commands (engine polled_world) = polled_registry"
    and state: "app_state polled_world = 0"
    by (simp_all add: polled_world_def sample_defs)
  obtain w1 where s1: "create_shotgun_menu False polled_world = Inr (True, w1)"
    and len: "map_option (map_option length \<circ> get_menu_definition) (menu_generator (engine w1)) = Some (Some 8)"
    by (simp add: engine_defs sample_defs polled_world_def polled_registry_def scenario_command_def
        scenario_app_def menu_defs get_menu_definition_def str_nat.simps Let_def)
  have "\<exists>w2. create_shotgun_menu False (w1\<lparr>app_state := 1\<rparr>) = Inr (True, w2)
           \<and> map_option get_menu_definition (menu_generator (engine w2))
             = map_option get_menu_definition (menu_generator (engine w1))"
    using t [where w = polled_world and r = True and ?w1.0 = w1, THEN conjunct2, THEN conjunct1,
        unfolded registry state] agree s1
    by simp
  then obtain w2 where s2: "create_shotgun_menu False (w1\<lparr>app_state := 1\<rparr>) = Inr (True, w2)"
    and same_def: "map_option get_menu_definition (menu_generator (engine w2))
             = map_option get_menu_definition (menu_generator (engine w1))"
    by (elim exE conjE)
  from s1 s2 same_def len have engine_level: "\<exists>w1 w2. create_shotgun_menu False polled_world = Inr (True, w1)
         \<and> create_shotgun_menu False (w1\<lparr>app_state := 1\<rparr>) = Inr (True, w2)
         \<and> map_option get_menu_definition (menu_generator (engine w2))
           = map_option get_menu_definition (menu_generator (engine w1))
         \<and> map_option (map_option length \<circ> get_menu_definition) (menu_generator (engine w1)) = Some (Some 8)"
    by (intro exI [of _ w1] exI [of _ w2] conjI)
  obtain g2 where "create_menu_again 0 ?eng False ?init = Inr g2"
    by (simp add: create_menu_again_def menu_defs scenario_engine_def polled_registry_def scenario_command_def
        scenario_app_def sample_context_def str_nat.simps Let_def)
  with b1 have b2: "create_menu 0 ?eng False g1 = Inr g2"
    by (simp add: create_menu_again_def)
  have renumbered: "\<exists>md1 md2. menu_def g1 = Some md1 \<and> menu_def g2 = Some md2 \<and> md1 \<noteq> []
         \<and> list_all2 (\<lambda>(path1, label1) (path2, label2). path1 \<noteq> path2 \<and> label1 = label2)
             (outline md1) (outline md2)"
    using rebuild_same_menu [where st = 0 and st' = 0 and eng = ?eng and ?g0.0 = ?init and ?g1.0 = g1 and ?g2.0 = g2]
      b1 b2 by simp
  have differ: "map_sum fst menu_def (create_menu 2 ?eng False ?init)
     \<noteq> map_sum fst menu_def (create_menu 0 ?eng False ?init)"
    by (simp add: menu_defs scenario_engine_def polled_registry_def scenario_command_def scenario_app_def
        sample_context_def str_nat.simps Let_def)
  have fresh: "\<exists>g. create_menu 0 ?eng False ?init = Inr g \<and> create_menu 1 ?eng False ?init = Inr g
         \<and> map_option (map fst) (menu_def g)
           = Some [''/Shot 010/Jump to Shotgun2'', ''/Shot 010/divider2'', ''/divider3'', ''/Render3'',
               ''/divider4'', ''/AppA/Open4'', ''/AppA/Save5'', ''/divider5'']"
    using b1 same paths by (intro exI [of _ g1] conjI)
  have again: "\<exists>g1 g2 md1 md2. create_menu 0 ?eng False ?init = Inr g1 \<and> create_menu 0 ?eng False g1 = Inr g2
         \<and> menu_def g1 = Some md1 \<and> menu_def g2 = Some md2 \<and> md1 \<noteq> []
         \<and> list_all2 (\<lambda>(path1, label1) (path2, label2). path1 \<noteq> path2 \<and> label1 = label2)
             (outline md1) (outline md2)"
  proof -
    from renumbered obtain md1 md2 where "menu_def g1 = Some md1" and "menu_def g2 = Some md2" and "md1 \<noteq> []"
      and "list_all2 (\<lambda>(path1, label1) (path2, label2). path1 \<noteq> path2 \<and> label1 = label2)
             (outline md1) (outline md2)"
      by (elim exE conjE)
    with b1 b2 show ?thesis
      by (intro exI [of _ g1] exI [of _ g2] exI [of _ md1] exI [of _ md2] conjI)
  qed
  from agree fresh engine_level again differ show ?thesis
    by (intro conjI)
qed

section \<open>Favourites\<close>

text \<open>
  C6, as the claim states it, fails: with the one favourite \<^verbatim>\<open>(Ghost, Missing)\<close>,
  which no command of the scenario's registry matches, the build still appends
  \<^verbatim>\<open>/divider4\<close> right after \<^verbatim>\<open>/divider3\<close>.
\<close>

theorem unmatched_favourite_still_divides:
  "map_sum fst (map_option outline \<circ> menu_def)
     (create_menu 0 (scenario_engine scenario_registry [\<lparr>app_instance = ''Ghost'', fav_name = ''Missing''\<rparr>] sample_context)
        False (MenuGenerator_init ''Shotgun''))
   = Inr (Some [(''/Shot 010/Jump to Shotgun2'', Some ''Jump to Shotgun''),
        (''/Shot 010/divider2'', None), (''/divider3'', None), (''/divider4'', None),
        (''/AppA/Open3'', Some ''Open''), (''/AppA/Save4'', Some ''Save''),
        (''/Render5'', Some ''Render''), (''/divider5'', None)])"
  by (simp add: menu_defs scenario_defs sample_context_def outline_def str_nat.simps Let_def)

text \<open>
  C6, amended. A build with \<^verbatim>\<open>disabled=False\<close> that returns has appended, in this
  order: the context section, the promoted commands (for each favourite entry in
  turn the commands matching both fields), one divider exactly when the
  \<^verbatim>\<open>menu_favourites\<close> setting is not empty, and the remaining section. A favourite
  entry that no command matches adds no item and raises nothing: the scan for it
  returns the commands and the generator as they were.
\<close>

theorem favourites_divider_by_setting:
  assumes "create_menu st eng False g0 = Inr g"
  shows "map_option outline (menu_def g)
           = Some (number_slots (divider_id g0) (menu_item_id g0)
                    (context_layout eng @ promoted_layout eng
                     @ (if menu_favourites eng = [] then [] else [Divider_in []])
                     @ remaining_layout eng))
         \<and> (\<not> list_ex (favourite_matches eng fav) cmds \<longrightarrow>
               scan_menu_items st eng fav cmds g1 = Inr (cmds, g1))"
  using create_menu_outline [OF assms] scan_menu_items_unmatched [of eng fav cmds st g1]
  by (simp add: menu_layout_def)

theorem favourites_divider_by_setting_witness:
  "(\<exists>g. create_menu 0 (scenario_engine scenario_registry [\<lparr>app_instance = ''Ghost'', fav_name = ''Missing''\<rparr>] sample_context)
            False (MenuGenerator_init ''Shotgun'') = Inr g
        \<and> map_option outline (menu_def g)
            = Some (number_slots 1 1
                 [Item_in ''/Shot 010'' ''Jump to Shotgun'', Divider_in ''/Shot 010'', Divider_in [],
                  Divider_in [],
                  Item_in ''/AppA'' ''Open'', Item_in ''/AppA'' ''Save'', Item_in [] ''Render'', Divider_in []]))
   \<and> \<not> list_ex (favourite_matches
           (scenario_engine scenario_registry [\<lparr>app_instance = ''Ghost'', fav_name = ''Missing''\<rparr>] sample_context)
           \<lparr>app_instance = ''Ghost'', fav_name = ''Missing''\<rparr>)
         (sorted_commands (scenario_engine scenario_registry [\<lparr>app_instance = ''Ghost'', fav_name = ''Missing''\<rparr>] sample_context))
   \<and> scan_menu_items 0
         (scenario_engine scenario_registry [\<lparr>app_instance = ''Ghost'', fav_name = ''Missing''\<rparr>] sample_context)
         \<lparr>app_instance = ''Ghost'', fav_name = ''Missing''\<rparr>
         (sorted_commands (scenario_engine scenario_registry [\<lparr>app_instance = ''Ghost'', fav_name = ''Missing''\<rparr>] sample_context))
         (MenuGenerator_init ''Shotgun'')
       = Inr (sorted_commands (scenario_engine scenario_registry [\<lparr>app_instance = ''Ghost'', fav_name = ''Missing''\<rparr>] sample_context),
              MenuGenerator_init ''Shotgun'')"
proof -
  let ?eng = "scenario_engine scenario_registry [\<lparr>app_instance = ''Ghost'', fav_name = ''Missing''\<rparr>] sample_context"
  let ?fav = "\<lparr>app_instance = ''Ghost'', fav_name = ''Missing''\<rparr>"
  obtain g where built: "create_menu 0 ?eng False (MenuGenerator_init ''Shotgun'') = Inr g"
    by (simp add: menu_defs scenario_defs sample_context_def str_nat.simps Let_def)
  have unmatched: "\<not> list_ex (favourite_matches ?eng ?fav) (sorted_commands ?eng)"
    by (simp add: layout_defs scenario_defs AppCommand_init_def get_app_instance_name_def no_properties_def)
  have layout: "context_layout ?eng @ promoted_layout ?eng
         @ (if menu_favourites ?eng = [] then [] else [Divider_in []]) @ remaining_layout ?eng
      = [Item_in ''/Shot 010'' ''Jump to Shotgun'', Divider_in ''/Shot 010'', Divider_in [],
         Divider_in [],
         Item_in ''/AppA'' ''Open'', Item_in ''/AppA'' ''Save'', Item_in [] ''Render'', Divider_in []]"
    by (simp add: layout_defs scenario_defs sample_context_def AppCommand_init_def get_app_instance_name_def
        get_app_name_def get_type_def no_properties_def Let_def)
  from favourites_divider_by_setting [OF built, of ?fav "sorted_commands ?eng" "MenuGenerator_init ''Shotgun''"]
    built unmatched layout
  show ?thesis
    by (simp add: MenuGenerator_init_def)
qed




section \<open>Further facts about the lock and the polling\<close>

text \<open>
  Whenever \<^verbatim>\<open>create_shotgun_menu\<close> raises, \<^verbatim>\<open>_creating_menu\<close> is left set; when it
  returns after a build, the flag is clear.
\<close>

lemma create_shotgun_menu_raises_keeps_lock:
  "create_shotgun_menu disabled w = Inl (ex, w') \<Longrightarrow> creating_menu (engine w')"
  by (auto simp: create_shotgun_menu_def has_ui_def is_batch_mode_def write_log_def Let_def
      split: if_splits sum.splits)

lemma create_shotgun_menu_returns_unlocked:
  "create_shotgun_menu disabled w = Inr (r, w') \<Longrightarrow> can_create_menu (script (engine w)) \<Longrightarrow>
     \<not> creating_menu (engine w')"
  by (auto simp: create_shotgun_menu_def has_ui_def is_batch_mode_def write_log_def Let_def
      split: if_splits sum.splits)

text \<open>
  Without a current engine, a script or a file name, \<^verbatim>\<open>refresh_engine\<close> returns at
  once and leaves the engine and the timers as they were.
\<close>

lemma refresh_engine_without_document:
  assumes "\<not> current_engine_set w \<or> script (engine w) = None
           \<or> map_option fileName (script (engine w)) = Some []"
  shows "\<exists>w'. refresh_engine h w = Inr w' \<and> engine w' = engine w \<and> pending w' = pending w"
  using assms by (auto simp: refresh_engine_def write_log_def Let_def split: option.splits)

text \<open>
  \<^verbatim>\<open>refresh_engine\<close> writes its first log line once per run, and a poll on an
  existing file runs it exactly when \<^verbatim>\<open>abspath\<close> of the stored name differs from
  the value of the \<^verbatim>\<open>fileName\<close> plug as it is.
\<close>

lemma create_shotgun_menu_log:
  "create_shotgun_menu disabled w = Inr (r, w') \<Longrightarrow> refresh_count w' = refresh_count w"
  by (auto simp: create_shotgun_menu_def has_ui_def is_batch_mode_def write_log_def Let_def refresh_count_def
      split: if_splits sum.splits)

lemma project_context_log:
  "project_context h tk w = Inr (ctx, w') \<Longrightarrow> refresh_count w' = refresh_count w \<and> engine w' = engine w"
  by (auto simp: project_context_def write_log_def refresh_count_def split: option.splits sum.splits)

lemma refresh_engine_counts_once:
  assumes "refresh_engine h w = Inr w'"
  shows "refresh_count w' = Suc (refresh_count w)"
  using assms
  by (auto simp: refresh_engine_def write_log_def display_warning_def Let_def refresh_count_def
      split: if_splits option.splits sum.splits exn.splits prod.splits
      dest!: create_shotgun_menu_log [unfolded refresh_count_def] project_context_log [unfolded refresh_count_def])

lemma check_if_document_changed_refreshes_iff:
  assumes "application (engine w)" and "script (engine w) = Some scr" and "path_exists h (fileName scr)"
    and "check_if_document_changed h w = Inr w'"
  shows "refresh_count w' = refresh_count w
           + (if abspath h (active_document_filename (engine w)) \<noteq> fileName scr then 1 else 0)"
proof (cases "abspath h (active_document_filename (engine w)) \<noteq> fileName scr")
  case True
  let ?w1 = "(write_log (Debug (''Active document changed from: '' @ active_document_filename (engine w)
                @ '' to: '' @ fileName scr)) w)
             \<lparr>engine := (engine w)\<lparr>active_document_filename := abspath h (fileName scr)\<rparr>\<rparr>"
  from assms True have "refresh_engine h ?w1 = Inr w'"
    by (simp add: check_if_document_changed_def Let_def write_log_def)
  from refresh_engine_counts_once [OF this] True show ?thesis
    by (simp add: refresh_count_def write_log_def)
next
  case False
  with assms show ?thesis
    by (simp add: check_if_document_changed_def Let_def)
qed

end
